theory Spec2Isabelle
  imports Complex_Main "HOL-Library.Word" "HOL-Library.Signed_Division"
begin

unbundle bit_operations_syntax

section \<open>Skytracer: geometry, media, estimators, random stream and tiles\<close>

text \<open>
  The C++ sources compute on \<open>float\<close>. A \<open>float\<close> is modelled by the real
  number it denotes. In the intersection routines \<open>+\<close>, \<open>-\<close>, \<open>*\<close>, \<open>/\<close> and
  \<open>sqrtf\<close> are the exact real operations; comparisons and branches are kept as the
  source writes them. The medium model and the two tracking estimators are written over
  their arithmetic, exact or rounded to binary32 and binary64, because properties of
  theirs depend on the rounding. Machine integers keep their width.
\<close>

subsection \<open>common.hxx: vectors, constants, rays\<close>

datatype vec3 = Vec3 (vx: real) (vy: real) (vz: real)

definition vadd :: "vec3 \<Rightarrow> vec3 \<Rightarrow> vec3" where
  "vadd a b = Vec3 (vx a + vx b) (vy a + vy b) (vz a + vz b)"

definition vsub :: "vec3 \<Rightarrow> vec3 \<Rightarrow> vec3" where
  "vsub a b = Vec3 (vx a - vx b) (vy a - vy b) (vz a - vz b)"

definition vscale :: "vec3 \<Rightarrow> real \<Rightarrow> vec3" where
  "vscale a t = Vec3 (vx a * t) (vy a * t) (vz a * t)"

definition dot :: "vec3 \<Rightarrow> vec3 \<Rightarrow> real" where
  "dot a b = vx a * vx b + vy a * vy b + vz a * vz b"

definition distance :: "vec3 \<Rightarrow> vec3 \<Rightarrow> real" where
  "distance a b = sqrt (dot (vsub a b) (vsub a b))"

definition EARTH_RADIUS :: real where
  "EARTH_RADIUS = 6371000"

definition ATMOSPHERE_THICKNESS :: real where
  "ATMOSPHERE_THICKNESS = 100000"

definition ATMOSPHERE_RADIUS :: real where
  "ATMOSPHERE_RADIUS = EARTH_RADIUS + ATMOSPHERE_THICKNESS"

definition EARTH_CENTER :: vec3 where
  "EARTH_CENTER = Vec3 0 0 (- EARTH_RADIUS)"

record ray =
  ray_o :: vec3
  ray_d :: vec3

definition Ray :: "vec3 \<Rightarrow> vec3 \<Rightarrow> ray" where
  "Ray origin direction = \<lparr>ray_o = origin, ray_d = direction\<rparr>"

subsection \<open>The integrators (src/unnamed/part_001): intersection with the two spheres\<close>

text \<open>
  \<open>ray_sphere_intersection\<close>: the early returns of the source are the branches of
  the conditional, in the source's order.
\<close>

definition ray_sphere_intersection :: "ray \<Rightarrow> real \<Rightarrow> real" where
  "ray_sphere_intersection r sr =
     (let oc = vsub (ray_o r) EARTH_CENTER;
          b = dot oc (ray_d r);
          c = dot oc oc - sr * sr
      in if c > 0 \<and> b > 0 then - 1
         else let d = b * b - c
              in if d < 0 then - 1
                 else if d > b * b then - b + sqrt d
                 else - b - sqrt d)"

text \<open>
  \<open>scene_intersect\<close> returns \<open>t_max\<close> and writes \<open>intersected_earth\<close> through a
  reference: the model returns the pair. The displaced ray \<open>new_ray\<close> is built and
  never used by the source; both later calls are made on \<open>ray\<close>.
\<close>

definition scene_intersect :: "ray \<Rightarrow> real \<times> bool" where
  "scene_intersect r =
     (let atmos_t = ray_sphere_intersection r ATMOSPHERE_RADIUS
      in if vz (ray_o r) \<ge> ATMOSPHERE_THICKNESS then
           (if atmos_t < 0 then (- 1, False)
            else let new_ray = Ray (vadd (ray_o r) (vscale (ray_d r) atmos_t)) (ray_d r);
                     earth_t = ray_sphere_intersection r EARTH_RADIUS
                 in if earth_t < 0 then (ray_sphere_intersection r ATMOSPHERE_RADIUS, False)
                    else (earth_t, True))
         else
           (let earth_t = ray_sphere_intersection r EARTH_RADIUS
            in if earth_t < 0 then (atmos_t, False)
               else (earth_t, True)))"

text \<open>
  The point of a ray at distance \<open>t\<close>, and what it means for it to lie on the sphere
  of radius \<open>sr\<close> around the planet centre.
\<close>

definition ray_at :: "ray \<Rightarrow> real \<Rightarrow> vec3" where
  "ray_at r t = vadd (ray_o r) (vscale (ray_d r) t)"

definition on_sphere :: "ray \<Rightarrow> real \<Rightarrow> real \<Rightarrow> bool" where
  "on_sphere r sr t \<longleftrightarrow>
     dot (vsub (ray_at r t) EARTH_CENTER) (vsub (ray_at r t) EARTH_CENTER) = sr * sr"

text \<open>
  With \<open>b\<close> and \<open>c\<close> the two coefficients the source computes, a point of a ray with
  unit direction lies on the sphere iff \<open>t\<^sup>2 + 2 b t + c = 0\<close>.
\<close>

definition rs_b :: "ray \<Rightarrow> real" where
  "rs_b r = dot (vsub (ray_o r) EARTH_CENTER) (ray_d r)"

definition rs_c :: "ray \<Rightarrow> real \<Rightarrow> real" where
  "rs_c r sr = dot (vsub (ray_o r) EARTH_CENTER) (vsub (ray_o r) EARTH_CENTER) - sr * sr"

subsection \<open>random.hxx: the PCG32 random stream\<close>

record pcg32 =
  state :: "64 word"
  inc :: "64 word"

definition next_uint :: "pcg32 \<Rightarrow> 32 word \<times> pcg32" where
  "next_uint g =
     (let oldstate = state g;
          g' = g\<lparr>state := oldstate * 6364136223846793005 + inc g\<rparr>;
          xorshifted = (ucast (drop_bit 27 (drop_bit 18 oldstate XOR oldstate)) :: 32 word);
          rot = (ucast (drop_bit 59 oldstate) :: 32 word)
      in (drop_bit (unat rot) xorshifted OR push_bit (unat (- rot AND 31)) xorshifted, g'))"

definition seed :: "64 word \<Rightarrow> 64 word \<Rightarrow> pcg32" where
  "seed initstate initseq =
     (let g0 = \<lparr>state = 0, inc = push_bit 1 initseq OR 1\<rparr>;
          g1 = snd (next_uint g0);
          g2 = g1\<lparr>state := state g1 + initstate\<rparr>
      in snd (next_uint g2))"

definition PCG32_DEFAULT_STATE :: "64 word" where
  "PCG32_DEFAULT_STATE = 0xffc5d3a96def55f9"

definition PCG32_DEFAULT_SEQ :: "64 word" where
  "PCG32_DEFAULT_SEQ = 0xc3579e39d9baf6b8"

definition pcg32_default :: pcg32 where
  "pcg32_default = seed PCG32_DEFAULT_STATE PCG32_DEFAULT_SEQ"

definition pcg32_init :: "64 word \<Rightarrow> 64 word \<Rightarrow> pcg32" where
  "pcg32_init initstate initseq = seed initstate (2 * initseq + 1)"

text \<open>
  \<open>next_float\<close>: the 32-bit draw is shifted right by 8, converted to \<open>float\<close> and
  multiplied by the constant \<open>1.0f / (1 << 24)\<close>.
\<close>

definition next_float :: "pcg32 \<Rightarrow> real \<times> pcg32" where
  "next_float g =
     (let (u, g') = next_uint g
      in (real (unat (drop_bit 8 u)) * (1 / real (unat (push_bit 24 (1 :: 32 word)))), g'))"

text \<open>
  A binary32 number is \<open>m * 2\<^sup>e\<close> with a significand of at most 24 bits and an
  exponent in the format's range; a real of this form is the result of any correctly
  rounded operation whose exact result it is.
\<close>

definition pow2 :: "int \<Rightarrow> real" where
  "pow2 e = (if 0 \<le> e then 2 ^ nat e else 1 / 2 ^ nat (- e))"

definition binary32 :: "real \<Rightarrow> bool" where
  "binary32 v \<longleftrightarrow> (\<exists>m e. \<bar>m\<bar> < 2 ^ 24 \<and> - 149 \<le> e \<and> e \<le> 104 \<and> v = real_of_int m * pow2 e)"

subsection \<open>sampler.hxx (in src/src/lightsource.hxx): the sampler\<close>

text \<open>
  A \<open>Sampler\<close> owns one random stream, its member \<open>_random\<close>. The constructor seeds
  the stream with its two arguments (the renderer passes the first and the past-the-end
  index of a range of tiles); \<open>next_1d\<close> is \<open>next_float\<close> on the stream and leaves the
  stream advanced.
\<close>

record sampler =
  sampler_random :: pcg32

definition Sampler :: "64 word \<Rightarrow> 64 word \<Rightarrow> sampler" where
  "Sampler range_begin range_end = \<lparr>sampler_random = seed range_begin range_end\<rparr>"

definition next_1d :: "sampler \<Rightarrow> real \<times> sampler" where
  "next_1d smp =
     (let (v, g') = next_float (sampler_random smp) in (v, smp\<lparr>sampler_random := g'\<rparr>))"

subsection \<open>The atmosphere header (src/unnamed/part_002): the abstract medium\<close>

text \<open>
  The abstract class \<open>Atmosphere\<close>: its virtual methods are the fields. The
  point-taking overloads go through \<open>height_at_point\<close>. The default implementation
  of \<open>get_max_extinction\<close>, which keeps a cache, is \<open>Atmosphere_get_max_extinction\<close>
  further down; a field holds what one call returns.
\<close>

record atmosphere =
  atm_get_absorption :: "real \<Rightarrow> real \<Rightarrow> real"
  atm_get_scattering :: "real \<Rightarrow> real \<Rightarrow> real"
  atm_get_extinction :: "real \<Rightarrow> real \<Rightarrow> real"
  atm_get_max_extinction :: "real \<Rightarrow> real"

definition height_at_point :: "vec3 \<Rightarrow> real" where
  "height_at_point p = distance p EARTH_CENTER - EARTH_RADIUS"

definition get_extinction_at :: "atmosphere \<Rightarrow> vec3 \<Rightarrow> real \<Rightarrow> real" where
  "get_extinction_at atm p wl = atm_get_extinction atm (height_at_point p) wl"

subsection \<open>Rays used below\<close>

text \<open>
  Two rays used below. \<open>zenith_ray\<close> starts on the ground at the observer's default
  position (eye altitude 0) and looks straight up. \<open>grazing_ray\<close> starts 200 km above
  the ground, outside the atmosphere, and passes through the atmosphere above the
  ground.
\<close>

definition zenith_ray :: ray where
  "zenith_ray = Ray (Vec3 0 0 0) (Vec3 0 0 1)"

definition grazing_ray :: ray where
  "grazing_ray = Ray (Vec3 1900000 0 200000) (Vec3 (4 / 5) 0 (- 3 / 5))"

subsection \<open>renderer.cxx: tiles\<close>

text \<open>
  \<open>Tile(x0, x1, y0, y1)\<close> is the pixel rectangle \<open>[x0, x1) \<times> [y0, y1)\<close>.
\<close>

datatype tile = Tile (tx0: int) (tx1: int) (ty0: int) (ty1: int)

text \<open>
  The image and tile sizes and all values computed from them are C++ \<open>int\<close>s (32 bits).
  Signed overflow is undefined behaviour in C++; the model takes the two's-complement
  wrap-around that the usual compilers produce, written out on \<open>int\<close>. Division
  truncates towards zero.
\<close>

definition wrap32 :: "int \<Rightarrow> int" where
  "wrap32 a = (a + 2 ^ 31) mod 2 ^ 32 - 2 ^ 31"

definition int_add :: "int \<Rightarrow> int \<Rightarrow> int" where
  "int_add a b = wrap32 (a + b)"

definition int_sub :: "int \<Rightarrow> int \<Rightarrow> int" where
  "int_sub a b = wrap32 (a - b)"

definition int_mul :: "int \<Rightarrow> int \<Rightarrow> int" where
  "int_mul a b = wrap32 (a * b)"

definition int_div :: "int \<Rightarrow> int \<Rightarrow> int" where
  "int_div a b = wrap32 (a sdiv b)"

text \<open>
  The body of the inner loop of \<open>prepare_tiles\<close>: the tile in column \<open>i\<close> of row \<open>j\<close>.
\<close>

definition make_tile :: "int \<Rightarrow> int \<Rightarrow> int \<Rightarrow> int \<Rightarrow> int \<Rightarrow> int \<Rightarrow> int \<Rightarrow> int \<Rightarrow> tile" where
  "make_tile image_width image_height tile_width tile_height x_tiles y_tiles j i =
     (let x0 = int_mul i tile_width;
          x1 = (if i = int_sub x_tiles 1 then image_width else int_add x0 tile_width);
          y0 = int_mul j tile_height;
          y1 = (if j = int_sub y_tiles 1 then image_height else int_add y0 tile_height)
      in Tile x0 x1 y0 y1)"

text \<open>
  The two nested \<open>for\<close> loops, each pushing to the back of \<open>_tiles\<close>. The counters
  stay below \<open>x_tiles\<close> and \<open>y_tiles\<close>, which are \<open>int\<close> values, so \<open>++i\<close> and
  \<open>++j\<close> cannot overflow.
\<close>

function prepare_tiles_i ::
  "int \<Rightarrow> int \<Rightarrow> int \<Rightarrow> int \<Rightarrow> int \<Rightarrow> int \<Rightarrow> int \<Rightarrow> int \<Rightarrow> tile list \<Rightarrow> tile list" where
  "prepare_tiles_i image_width image_height tile_width tile_height x_tiles y_tiles j i tiles =
     (if i < x_tiles then
        prepare_tiles_i image_width image_height tile_width tile_height x_tiles y_tiles j (i + 1)
          (tiles @ [make_tile image_width image_height tile_width tile_height x_tiles y_tiles j i])
      else tiles)"
  by pat_completeness auto
termination
  by (relation "measure (\<lambda>(W, H, TW, TH, x_tiles, y_tiles, j, i, tiles). nat (x_tiles - i))") auto

function prepare_tiles_j ::
  "int \<Rightarrow> int \<Rightarrow> int \<Rightarrow> int \<Rightarrow> int \<Rightarrow> int \<Rightarrow> int \<Rightarrow> tile list \<Rightarrow> tile list" where
  "prepare_tiles_j image_width image_height tile_width tile_height x_tiles y_tiles j tiles =
     (if j < y_tiles then
        prepare_tiles_j image_width image_height tile_width tile_height x_tiles y_tiles (j + 1)
          (prepare_tiles_i image_width image_height tile_width tile_height x_tiles y_tiles j 0 tiles)
      else tiles)"
  by pat_completeness auto
termination
  by (relation "measure (\<lambda>(W, H, TW, TH, x_tiles, y_tiles, j, tiles). nat (y_tiles - j))") auto

definition prepare_tiles :: "int \<Rightarrow> int \<Rightarrow> int \<Rightarrow> int \<Rightarrow> tile list" where
  "prepare_tiles image_width image_height tile_width tile_height =
     (let x_tiles = int_div (int_sub (int_add image_width tile_width) 1) tile_width;
          y_tiles = int_div (int_sub (int_add image_height tile_height) 1) tile_height
      in prepare_tiles_j image_width image_height tile_width tile_height x_tiles y_tiles 0 [])"

text \<open>
  \<open>render_tile\<close> visits the pixels \<open>(x, y)\<close> with \<open>y0 \<le> y < y1\<close> and
  \<open>x0 \<le> x < x1\<close>: the pixels that belong to the tile.
\<close>

definition in_tile :: "tile \<Rightarrow> int \<Rightarrow> int \<Rightarrow> bool" where
  "in_tile t x y \<longleftrightarrow> ty0 t \<le> y \<and> y < ty1 t \<and> tx0 t \<le> x \<and> x < tx1 t"

declare prepare_tiles_i.simps [simp del] prepare_tiles_j.simps [simp del]

text \<open>
  The tile of column \<open>i\<close> and row \<open>j\<close> of the grid, in unbounded integers: full size,
  except that the last column and row end at the image border.
\<close>

definition grid_tile :: "int \<Rightarrow> int \<Rightarrow> int \<Rightarrow> int \<Rightarrow> int \<Rightarrow> int \<Rightarrow> tile" where
  "grid_tile W H TW TH j i =
     Tile (i * TW) (if i = (W + TW - 1) div TW - 1 then W else i * TW + TW)
          (j * TH) (if j = (H + TH - 1) div TH - 1 then H else j * TH + TH)"

subsection \<open>Floating-point arithmetic of the medium model and the estimators\<close>

text \<open>
  The functions of the medium model and the two tracking loops are written over the
  arithmetic they run on: a
  rounding to \<open>float\<close> and a rounding to \<open>double\<close>, applied to the exact result of
  every operation and to every literal, as the C++ types prescribe. With \<open>exact\<close> no
  result is rounded, which gives the model on the real numbers; with \<open>ieee\<close> every
  result is rounded to the nearest binary32 or binary64 number, ties to even (overflow
  to infinity, NaN and signed zeros are not modelled). Every operation is rounded to the
  type the language gives it, with no wider intermediate precision and no fused
  multiply-add, as on the usual x86-64 build. \<open>expf\<close> and \<open>logf\<close> are taken to be
  correctly rounded; \<open>fmaxf\<close> returns one of its arguments and does not round.
\<close>

record fmode =
  r32 :: "real \<Rightarrow> real"
  r64 :: "real \<Rightarrow> real"

definition exact :: fmode where
  "exact = \<lparr>r32 = (\<lambda>x. x), r64 = (\<lambda>x. x)\<rparr>"

definition rne :: "real \<Rightarrow> int" where
  "rne x =
     (let f = \<lfloor>x\<rfloor>; r = x - real_of_int f
      in if r < 1 / 2 then f else if 1 / 2 < r then f + 1 else if even f then f else f + 1)"

definition round_to :: "nat \<Rightarrow> int \<Rightarrow> real \<Rightarrow> real" where
  "round_to p emin x =
     (if x = 0 then 0
      else let e = max (\<lfloor>log 2 \<bar>x\<bar>\<rfloor> - (int p - 1)) emin
           in real_of_int (rne (x / pow2 e)) * pow2 e)"

definition ieee :: fmode where
  "ieee = \<lparr>r32 = round_to 24 (- 149), r64 = round_to 53 (- 1074)\<rparr>"

definition fadd :: "fmode \<Rightarrow> real \<Rightarrow> real \<Rightarrow> real" where
  "fadd fm a b = r32 fm (a + b)"

definition fsub :: "fmode \<Rightarrow> real \<Rightarrow> real \<Rightarrow> real" where
  "fsub fm a b = r32 fm (a - b)"

definition fmul :: "fmode \<Rightarrow> real \<Rightarrow> real \<Rightarrow> real" where
  "fmul fm a b = r32 fm (a * b)"

definition fdiv :: "fmode \<Rightarrow> real \<Rightarrow> real \<Rightarrow> real" where
  "fdiv fm a b = r32 fm (a / b)"

definition expf :: "fmode \<Rightarrow> real \<Rightarrow> real" where
  "expf fm a = r32 fm (exp a)"

definition logf :: "fmode \<Rightarrow> real \<Rightarrow> real" where
  "logf fm a = r32 fm (ln a)"

definition fmaxf :: "real \<Rightarrow> real \<Rightarrow> real" where
  "fmaxf a b = max a b"

text \<open>A decimal literal \<open>m\<close>e\<open>e\<close> of the source, as the real number it writes.\<close>

definition e10 :: "real \<Rightarrow> int \<Rightarrow> real" where
  "e10 m e = m * (if 0 \<le> e then 10 ^ nat e else 1 / 10 ^ nat (- e))"

subsection \<open>The integrators (src/unnamed/part_001): delta tracking and ratio tracking\<close>

text \<open>
  \<open>ray.o + ray.d * t\<close> on \<open>float\<close> vectors: every component is multiplied and added
  on its own.
\<close>

definition fvscale :: "fmode \<Rightarrow> vec3 \<Rightarrow> real \<Rightarrow> vec3" where
  "fvscale fm a t = Vec3 (fmul fm (vx a) t) (fmul fm (vy a) t) (fmul fm (vz a) t)"

definition fvadd :: "fmode \<Rightarrow> vec3 \<Rightarrow> vec3 \<Rightarrow> vec3" where
  "fvadd fm a b = Vec3 (fadd fm (vx a) (vx b)) (fadd fm (vy a) (vy b)) (fadd fm (vz a) (vz b))"



partial_function (option) transmittance_loop ::
  "fmode \<Rightarrow> atmosphere \<Rightarrow> real \<Rightarrow> ray \<Rightarrow> real \<Rightarrow> real \<Rightarrow> real \<Rightarrow> real \<Rightarrow> sampler
     \<Rightarrow> (real \<times> sampler) option" where
  "transmittance_loop fm atm majorant r t_max wl Tr t smp =
     (let u1 = fst (next_1d smp); smp1 = snd (next_1d smp);
          t' = fsub fm t (fdiv fm (logf fm (fsub fm 1 u1)) majorant)
      in if t' \<ge> t_max then Some (Tr, smp1)
         else let p = fvadd fm (ray_o r) (fvscale fm (ray_d r) t');
                  extinction = get_extinction_at atm p wl
              in transmittance_loop fm atm majorant r t_max wl
                   (fmul fm Tr (fsub fm 1 (fmaxf 0 (fdiv fm extinction majorant)))) t' smp1)"

definition transmittance ::
  "fmode \<Rightarrow> atmosphere \<Rightarrow> sampler \<Rightarrow> ray \<Rightarrow> real \<Rightarrow> real \<Rightarrow> (real \<times> sampler) option" where
  "transmittance fm atm smp r t_max wl =
     (let majorant = atm_get_max_extinction atm wl
      in transmittance_loop fm atm majorant r t_max wl 1 0 smp)"

text \<open>
  The distance after one step of either loop, and the distance a delta-tracking run
  has reached after \<open>n\<close> iterations that neither left nor accepted: every such
  iteration takes its step from one draw and spends a second draw on the acceptance
  test.
\<close>

definition flight :: "fmode \<Rightarrow> real \<Rightarrow> real \<Rightarrow> sampler \<Rightarrow> real" where
  "flight fm majorant t smp =
     fsub fm t (fdiv fm (logf fm (fsub fm 1 (fst (next_1d smp)))) majorant)"


text \<open>A medium without extinction whose majorant is 1, and a ray along the x axis.\<close>

definition vacuum :: atmosphere where
  "vacuum = \<lparr>atm_get_absorption = (\<lambda>h wl. 0), atm_get_scattering = (\<lambda>h wl. 0),
             atm_get_extinction = (\<lambda>h wl. 0), atm_get_max_extinction = (\<lambda>wl. 1)\<rparr>"

definition x_axis_ray :: ray where
  "x_axis_ray = Ray (Vec3 0 0 0) (Vec3 1 0 0)"

subsection \<open>lut.cxx: interpolation in a lookup table\<close>

text \<open>
  A \<open>LookupTable\<close> is a vector of pairs of floats. \<open>std::lower_bound\<close> searches for
  the pair \<open>(x, FLT_MIN)\<close> in the lexicographic order of \<open>std::pair\<close>; on a table
  sorted in this order its result is the first position whose entry is not less than
  the pair, which \<open>lower_bound\<close> finds from the front. The tables below are written
  as the source writes them; \<open>float_table\<close> rounds their entries to \<open>float\<close>.
\<close>

definition FLT_MIN :: real where
  "FLT_MIN = 1 / 2 ^ 126"

definition pair_less :: "real \<times> real \<Rightarrow> real \<times> real \<Rightarrow> bool" where
  "pair_less a b \<longleftrightarrow> fst a < fst b \<or> (\<not> fst b < fst a \<and> snd a < snd b)"

definition lower_bound :: "(real \<times> real) list \<Rightarrow> real \<times> real \<Rightarrow> nat" where
  "lower_bound table v = length (takeWhile (\<lambda>e. pair_less e v) table)"

definition float_table :: "fmode \<Rightarrow> (real \<times> real) list \<Rightarrow> (real \<times> real) list" where
  "float_table fm table = map (\<lambda>e. (r32 fm (fst e), r32 fm (snd e))) table"

definition lut_lerp :: "fmode \<Rightarrow> (real \<times> real) list \<Rightarrow> real \<Rightarrow> real" where
  "lut_lerp fm table x =
     (if x > fst (last table) then snd (last table)
      else if x < fst (hd table) then snd (hd table)
      else let it = lower_bound table (x, FLT_MIN)
           in if it = 0 then snd (table ! it)
              else let it2 = it - 1
                   in fadd fm (snd (table ! it2))
                        (fdiv fm (fmul fm (fsub fm (snd (table ! it)) (snd (table ! it2)))
                                          (fsub fm x (fst (table ! it2))))
                                 (fsub fm (fst (table ! it)) (fst (table ! it2)))))"

subsection \<open>The aerosol header (src/unnamed/part_004): aerosols\<close>

text \<open>
  The nine subclasses of \<open>Aerosol\<close> differ in the constants they pass to the base
  constructor, in their cross-section tables and, for the background aerosol, in
  \<open>get_density\<close>. The cross-section functions and that override are defined in
  \<open>aerosol.cxx\<close>, which is not among the sources: they are parameters of the model,
  collected in \<open>externals\<close>. The values of the phase functions (\<open>phase.cxx\<close>, in
  src/src/lightsource.hxx) are a parameter as well: what is proved about the phase
  mixture is which phase function is evaluated, whatever its value.
\<close>

datatype aerosol_kind =
  Background | DesertDust | MaritimeClean | MaritimeMineral | PolarAntarctic | PolarArtic
  | RemoteContinental | Rural | Urban

record aerosol =
  kind :: aerosol_kind
  turbidity :: real
  base_density :: real
  background_divided_by_base_density :: real
  height_scale :: real

datatype phase_function =
  Isotropic | HenyeyGreenstein (hg_g: real) (hg_gg: real) | RayleighPhase | ChandrasekharPhase

record externals =
  absorption_cross_section :: "aerosol_kind \<Rightarrow> real \<Rightarrow> real"
  scattering_cross_section :: "aerosol_kind \<Rightarrow> real \<Rightarrow> real"
  background_get_density :: "aerosol \<Rightarrow> real \<Rightarrow> real"
  phase_p :: "phase_function \<Rightarrow> vec3 \<Rightarrow> vec3 \<Rightarrow> real \<Rightarrow> real"

definition Aerosol :: "fmode \<Rightarrow> aerosol_kind \<Rightarrow> real \<Rightarrow> real \<Rightarrow> real \<Rightarrow> real \<Rightarrow> aerosol" where
  "Aerosol fm k turbidity' base_density' background_density height_scale' =
     \<lparr>kind = k, turbidity = turbidity', base_density = base_density',
      background_divided_by_base_density = fdiv fm background_density base_density',
      height_scale = height_scale'\<rparr>"

definition BackgroundAerosol :: "fmode \<Rightarrow> real \<Rightarrow> aerosol" where
  "BackgroundAerosol fm t =
     Aerosol fm Background t (r32 fm (e10 2.584 17)) (r32 fm (e10 2 6)) (r32 fm 0)"

definition DesertDustAerosol :: "fmode \<Rightarrow> real \<Rightarrow> aerosol" where
  "DesertDustAerosol fm t =
     Aerosol fm DesertDust t (r32 fm (e10 1.8662 18)) (r32 fm (e10 2 6)) (r32 fm 2)"

definition MaritimeCleanAerosol :: "fmode \<Rightarrow> real \<Rightarrow> aerosol" where
  "MaritimeCleanAerosol fm t =
     Aerosol fm MaritimeClean t (r32 fm (e10 2.0266 17)) (r32 fm (e10 2 6)) (r32 fm 0.9)"

definition MaritimeMineralAerosol :: "fmode \<Rightarrow> real \<Rightarrow> aerosol" where
  "MaritimeMineralAerosol fm t =
     Aerosol fm MaritimeMineral t (r32 fm (e10 2.0266 17)) (r32 fm (e10 2 6)) (r32 fm 2)"

definition PolarAntarcticAerosol :: "fmode \<Rightarrow> real \<Rightarrow> aerosol" where
  "PolarAntarcticAerosol fm t =
     Aerosol fm PolarAntarctic t (r32 fm (e10 2.3864 16)) (r32 fm (e10 2 6)) (r32 fm 30)"

definition PolarArticAerosol :: "fmode \<Rightarrow> real \<Rightarrow> aerosol" where
  "PolarArticAerosol fm t =
     Aerosol fm PolarArtic t (r32 fm (e10 2.3864 16)) (r32 fm (e10 2 6)) (r32 fm 30)"

definition RemoteContinentalAerosol :: "fmode \<Rightarrow> real \<Rightarrow> aerosol" where
  "RemoteContinentalAerosol fm t =
     Aerosol fm RemoteContinental t (r32 fm (e10 6.103 18)) (r32 fm (e10 2 6)) (r32 fm 0.73)"

text \<open>The rural base density is written as a \<open>double\<close> literal and converted.\<close>

definition RuralAerosol :: "fmode \<Rightarrow> real \<Rightarrow> aerosol" where
  "RuralAerosol fm t =
     Aerosol fm Rural t (r32 fm (r64 fm (e10 8.544 18))) (r32 fm (e10 2 6)) (r32 fm 0.73)"

definition UrbanAerosol :: "fmode \<Rightarrow> real \<Rightarrow> aerosol" where
  "UrbanAerosol fm t =
     Aerosol fm Urban t (r32 fm (e10 1.3681 20)) (r32 fm (e10 2 6)) (r32 fm 0.73)"

text \<open>
  \<open>Aerosol::get_density\<close>. \<open>height *= 1e-3\<close> multiplies by a \<open>double\<close> and stores a
  \<open>float\<close>. The background aerosol overrides the method.
\<close>

definition Aerosol_get_density :: "fmode \<Rightarrow> externals \<Rightarrow> aerosol \<Rightarrow> real \<Rightarrow> real" where
  "Aerosol_get_density fm ext a height =
     (if kind a = Background then background_get_density ext a height
      else let height' = r32 fm (r64 fm (height * r64 fm (e10 1 (- 3))))
           in fmul fm (base_density a)
                (fadd fm (expf fm (fdiv fm (- height') (height_scale a)))
                         (background_divided_by_base_density a)))"

text \<open>
  The three coefficients of an aerosol. The products with the cross-section, the
  density and the turbidity are \<open>float\<close> products; the last factor \<open>1e-3\<close> is a
  \<open>double\<close>, so the last product is a \<open>double\<close> product, converted to \<open>float\<close> on
  return.
\<close>

definition Aerosol_get_absorption :: "fmode \<Rightarrow> externals \<Rightarrow> aerosol \<Rightarrow> real \<Rightarrow> real \<Rightarrow> real" where
  "Aerosol_get_absorption fm ext a height wl =
     r32 fm (r64 fm (fmul fm (fmul fm (absorption_cross_section ext (kind a) wl)
                                      (Aerosol_get_density fm ext a height))
                             (turbidity a)
                     * r64 fm (e10 1 (- 3))))"

definition Aerosol_get_scattering :: "fmode \<Rightarrow> externals \<Rightarrow> aerosol \<Rightarrow> real \<Rightarrow> real \<Rightarrow> real" where
  "Aerosol_get_scattering fm ext a height wl =
     r32 fm (r64 fm (fmul fm (fmul fm (scattering_cross_section ext (kind a) wl)
                                      (Aerosol_get_density fm ext a height))
                             (turbidity a)
                     * r64 fm (e10 1 (- 3))))"

definition Aerosol_get_extinction :: "fmode \<Rightarrow> externals \<Rightarrow> aerosol \<Rightarrow> real \<Rightarrow> real \<Rightarrow> real" where
  "Aerosol_get_extinction fm ext a height wl =
     r32 fm (r64 fm (fmul fm (fmul fm (fadd fm (absorption_cross_section ext (kind a) wl)
                                               (scattering_cross_section ext (kind a) wl))
                                      (Aerosol_get_density fm ext a height))
                             (turbidity a)
                     * r64 fm (e10 1 (- 3))))"

subsection \<open>phase.hxx: phase functions\<close>

definition M_INV_4PI :: "fmode \<Rightarrow> real" where
  "M_INV_4PI fm = r32 fm (r64 fm 0.07957747154594766788)"

definition HenyeyGreenstein_new :: "fmode \<Rightarrow> real \<Rightarrow> phase_function" where
  "HenyeyGreenstein_new fm g = HenyeyGreenstein g (fmul fm g g)"

definition PhaseFunction_p ::
  "fmode \<Rightarrow> externals \<Rightarrow> phase_function \<Rightarrow> vec3 \<Rightarrow> vec3 \<Rightarrow> real \<Rightarrow> real" where
  "PhaseFunction_p fm ext ph wo wi wl =
     (case ph of Isotropic \<Rightarrow> M_INV_4PI fm | _ \<Rightarrow> phase_p ext ph wo wi wl)"

subsection \<open>The atmosphere implementation (src/unnamed/part_003): the Guimera atmosphere\<close>

definition Ts :: "fmode \<Rightarrow> real" where
  "Ts fm = r32 fm 288.15"

definition Ps :: "fmode \<Rightarrow> real" where
  "Ps fm = r32 fm 101325"

definition rayleigh_volume_scattering_lut :: "(real \<times> real) list" where
  "rayleigh_volume_scattering_lut =
    [(200, e10 9.202 (- 1)), (210, e10 7.225 (- 1)), (220, e10 5.781 (- 1)),
     (230, e10 4.691 (- 1)), (240, e10 3.859 (- 1)), (250, e10 3.208 (- 1)),
     (260, e10 2.690 (- 1)), (270, e10 2.277 (- 1)), (280, e10 1.940 (- 1)),
     (290, e10 1.665 (- 1)), (300, e10 1.437 (- 1)), (310, e10 1.249 (- 1)),
     (320, e10 1.090 (- 1)), (330, e10 9.557 (- 2)), (340, e10 8.425 (- 2)),
     (350, e10 7.450 (- 2)), (360, e10 6.619 (- 2)), (370, e10 5.901 (- 2)),
     (380, e10 5.275 (- 2)), (390, e10 4.734 (- 2)), (400, e10 4.261 (- 2)),
     (410, e10 3.845 (- 2)), (420, e10 3.479 (- 2)), (430, e10 3.156 (- 2)),
     (440, e10 2.870 (- 2)), (450, e10 2.616 (- 2)), (460, e10 2.389 (- 2)),
     (470, e10 2.187 (- 2)), (480, e10 2.005 (- 2)), (490, e10 1.842 (- 2)),
     (500, e10 1.696 (- 2)), (510, e10 1.564 (- 2)), (520, e10 1.444 (- 2)),
     (530, e10 1.336 (- 2)), (540, e10 1.238 (- 2)), (550, e10 1.149 (- 2)),
     (560, e10 1.067 (- 2)), (570, e10 9.927 (- 3)), (580, e10 9.247 (- 3)),
     (590, e10 8.624 (- 3)), (600, e10 8.053 (- 3)), (610, e10 7.530 (- 3)),
     (620, e10 7.049 (- 3)), (630, e10 6.605 (- 3)), (640, e10 6.196 (- 3)),
     (650, e10 5.819 (- 3)), (660, e10 5.470 (- 3)), (670, e10 5.146 (- 3)),
     (680, e10 4.847 (- 3)), (690, e10 4.568 (- 3)), (700, e10 4.310 (- 3)),
     (710, e10 4.069 (- 3)), (720, e10 3.846 (- 3)), (730, e10 3.637 (- 3)),
     (740, e10 3.442 (- 3)), (750, e10 3.261 (- 3)), (760, e10 3.090 (- 3)),
     (770, e10 2.931 (- 3)), (780, e10 2.781 (- 3)), (790, e10 2.641 (- 3)),
     (800, e10 2.510 (- 3)), (900, e10 1.561 (- 3)), (1000, e10 1.022 (- 3)),
     (1100, e10 6.964 (- 4)), (1200, e10 4.909 (- 4)), (1300, e10 3.560 (- 4)),
     (1400, e10 2.644 (- 4)), (1500, e10 2.005 (- 4)), (1600, e10 1.548 (- 4)),
     (1700, e10 1.214 (- 4)), (1800, e10 9.656 (- 5)), (1900, e10 7.775 (- 5)),
     (2000, e10 6.331 (- 5)), (2200, e10 4.322 (- 5)), (2400, e10 3.050 (- 5)),
     (2600, e10 2.214 (- 5)), (2800, e10 1.646 (- 5)), (3000, e10 1.249 (- 5)),
     (3500, e10 6.737 (- 6)), (4000, e10 3.948 (- 6))]"

definition standard_atmosphere_temperature_lut :: "(real \<times> real) list" where
  "standard_atmosphere_temperature_lut =
    [(0, 288.15), (1, 281.65), (2, 275.15), (3, 268.65), (4, 262.15), (5, 255.65),
     (6, 249.15), (7, 242.65), (8, 236.15), (9, 229.65), (10, 223.15), (11, 216.65),
     (12, 216.65), (13, 216.65), (14, 216.65), (15, 216.65), (16, 216.65), (17, 216.65),
     (18, 216.65), (19, 216.65), (20, 216.65), (21, 217.65), (22, 218.65), (23, 219.65),
     (24, 220.65), (25, 221.65), (26, 222.65), (27, 223.65), (28, 224.65), (29, 225.65),
     (30, 226.65), (31, 227.65), (32, 228.65), (33, 231.45), (34, 234.25), (35, 237.05),
     (36, 239.85), (37, 242.65), (38, 245.45), (39, 248.25), (40, 251.05), (41, 253.85),
     (42, 256.65), (43, 259.45), (44, 262.25), (45, 265.05), (46, 267.85), (47, 270.65),
     (48, 270.65), (49, 270.65), (50, 270.65), (51, 270.65), (52, 267.85), (53, 265.05),
     (54, 262.25), (55, 259.45), (56, 256.65), (57, 253.85), (58, 251.05), (59, 248.25),
     (60, 245.45), (61, 242.65), (62, 239.85), (63, 237.05), (64, 234.25), (65, 231.45),
     (66, 228.65), (67, 225.85), (68, 223.05), (69, 220.25), (70, 217.45), (71, 214.65),
     (72, 212.65), (73, 210.65), (74, 208.65), (75, 206.65), (76, 204.65), (77, 202.65),
     (78, 200.65), (79, 198.65), (80, 196.65), (81, 194.65), (82, 192.65), (83, 190.65),
     (84, 188.65), (85, 186.946), (86, 186.946)]"

definition standard_atmosphere_pressure_lut :: "(real \<times> real) list" where
  "standard_atmosphere_pressure_lut =
    [(0, 101325), (1, 89874.6), (2, 79495.2), (3, 70108.5), (4, 61640.2), (5, 54019.9),
     (6, 47181), (7, 41060.7), (8, 35599.8), (9, 30742.5), (10, 26436.3), (11, 22632.1),
     (12, 19330.4), (13, 16510.4), (14, 14101.8), (15, 12044.6), (16, 10287.5),
     (17, 8786.68), (18, 7504.84), (19, 6410.01), (20, 5474.89), (21, 4677.89),
     (22, 3999.79), (23, 3422.43), (24, 2930.49), (25, 2511.02), (26, 2153.09),
     (27, 1847.46), (28, 1586.29), (29, 1362.96), (30, 1171.87), (31, 1008.23),
     (32, 868.019), (33, 748.228), (34, 646.122), (35, 558.924), (36, 484.317),
     (37, 420.367), (38, 365.455), (39, 318.220), (40, 277.522), (41, 242.395),
     (42, 212.030), (43, 185.738), (44, 162.937), (45, 143.135), (46, 125.910),
     (47, 110.906), (48, 97.7545), (49, 86.1623), (50, 75.9448), (51, 66.9389),
     (52, 58.9622), (53, 51.8668), (54, 45.5632), (55, 39.9700), (56, 35.0137),
     (57, 30.6274), (58, 26.7509), (59, 23.3296), (60, 20.3143), (61, 17.6606),
     (62, 15.3287), (63, 13.2826), (64, 11.4900), (65, 9.92203), (66, 8.55275),
     (67, 7.35895), (68, 6.31992), (69, 5.41717), (70, 4.63422), (71, 3.95642),
     (72, 3.37176), (73, 2.86917), (74, 2.43773), (75, 2.06792), (76, 1.75140),
     (77, 1.48092), (78, 1.25012), (79, 1.05351), (80, 0.88628), (81, 0.74428),
     (82, 0.623905), (83, 0.522037), (84, 0.435981), (85, 0.36342), (86, 0.302723)]"

definition ozone_cross_section_lut :: "(real \<times> real) list" where
  "ozone_cross_section_lut =
    [(244, e10 946 (- 20)), (248, e10 1051 (- 20)), (253, e10 1120 (- 20)),
     (257, e10 1107 (- 20)), (289, e10 151 (- 20)), (296, e10 61.1 (- 20)),
     (302, e10 29.6 (- 20)), (365, e10 4.9 (- 23)), (405, e10 1.46 (- 23)),
     (455, e10 20.6 (- 23)), (543, e10 3.08 (- 21)), (576, e10 4.70 (- 21)),
     (594, e10 4.63 (- 21)), (604, e10 5.10 (- 21)), (611, e10 4.54 (- 21)),
     (632, e10 3.36 (- 21)), (748, e10 4.38 (- 22)), (755, e10 3.22 (- 22)),
     (760, e10 2.77 (- 22)), (765, e10 2.53 (- 22)), (770, e10 2.49 (- 22)),
     (779, e10 3.15 (- 22)), (802, e10 1.45 (- 22)), (817, e10 2.20 (- 22)),
     (853, e10 1.46 (- 22)), (877, e10 0.377 (- 22)), (889, e10 0.510 (- 22)),
     (898, e10 0.638 (- 22)), (933, e10 0.162 (- 22)), (944, e10 0.424 (- 22)),
     (991, e10 0.407 (- 22)), (1046, e10 0.0773 (- 22))]"

definition ozone_mean_monthly_dobson :: "real list" where
  "ozone_mean_monthly_dobson = [347, 370, 381, 384, 372, 352, 333, 317, 298, 285, 290, 315]"

text \<open>
  The object: the month, the two phase functions and the optional aerosol. The
  constructor writes its warnings to \<open>std::cerr\<close>; the model returns them with the
  object. It has no other exit.
\<close>

record guimera =
  month :: int
  phase_molecular :: phase_function
  phase_aerosol :: phase_function
  aerosol :: "aerosol option"

datatype warning = InvalidMonth int | UnknownAerosolType string

definition GuimeraAtmosphere :: "fmode \<Rightarrow> int \<Rightarrow> real \<Rightarrow> string \<Rightarrow> guimera \<times> warning list" where
  "GuimeraAtmosphere fm month' turbidity' aerosol_type =
     (let (m, w1) = (if month' < 0 \<or> month' > 11 then (0, [InvalidMonth month'])
                     else (month', []));
          pm = ChandrasekharPhase;
          pa = HenyeyGreenstein_new fm (r32 fm (r64 fm 0.8));
          (a, w2) =
            (if aerosol_type = ''none'' then (None, [])
             else if aerosol_type = ''background''
                  then (Some (BackgroundAerosol fm turbidity'), [])
             else if aerosol_type = ''desert-dust''
                  then (Some (DesertDustAerosol fm turbidity'), [])
             else if aerosol_type = ''maritime-clean''
                  then (Some (MaritimeCleanAerosol fm turbidity'), [])
             else if aerosol_type = ''maritime-mineral''
                  then (Some (MaritimeMineralAerosol fm turbidity'), [])
             else if aerosol_type = ''polar-antarctic''
                  then (Some (PolarAntarcticAerosol fm turbidity'), [])
             else if aerosol_type = ''polar-artic''
                  then (Some (PolarArticAerosol fm turbidity'), [])
             else if aerosol_type = ''remote-continental''
                  then (Some (RemoteContinentalAerosol fm turbidity'), [])
             else if aerosol_type = ''rural'' then (Some (RuralAerosol fm turbidity'), [])
             else if aerosol_type = ''urban'' then (Some (UrbanAerosol fm turbidity'), [])
             else (None, [UnknownAerosolType aerosol_type]))
      in (\<lparr>month = m, phase_molecular = pm, phase_aerosol = pa, aerosol = a\<rparr>, w1 @ w2))"

text \<open>The ten aerosol-type names the program lists (\<open>list_aerosol_types\<close> in args.cxx).\<close>

definition aerosol_type_names :: "string list" where
  "aerosol_type_names =
     [''none'', ''background'', ''desert-dust'', ''maritime-clean'', ''maritime-mineral'',
      ''polar-antarctic'', ''polar-artic'', ''remote-continental'', ''rural'', ''urban'']"

definition get_ozone_height_distribution :: "fmode \<Rightarrow> real \<Rightarrow> real" where
  "get_ozone_height_distribution fm height =
     (if height \<le> r32 fm 9000 then fdiv fm (r32 fm 9) (r32 fm 210)
      else if height \<le> r32 fm 18000 then fdiv fm (r32 fm 14) (r32 fm 210)
      else if height \<le> r32 fm 27000 then fdiv fm (r32 fm 111) (r32 fm 210)
      else if height \<le> r32 fm 36000 then fdiv fm (r32 fm 64) (r32 fm 210)
      else if height \<le> r32 fm 45000 then fdiv fm (r32 fm 6) (r32 fm 210)
      else if height \<le> r32 fm 54000 then fdiv fm (r32 fm 6) (r32 fm 210)
      else r32 fm 0)"

definition get_molecular_scattering :: "fmode \<Rightarrow> real \<Rightarrow> real \<Rightarrow> real" where
  "get_molecular_scattering fm height wl =
     (let height' = fmul fm height (r32 fm (e10 1 (- 3)));
          beta_s = lut_lerp fm (float_table fm rayleigh_volume_scattering_lut) wl;
          T = lut_lerp fm (float_table fm standard_atmosphere_temperature_lut) height';
          P = lut_lerp fm (float_table fm standard_atmosphere_pressure_lut) height';
          beta = fmul fm (fmul fm beta_s (fdiv fm P (Ps fm))) (fdiv fm (Ts fm) T)
      in fmul fm beta (r32 fm (e10 1 (- 3))))"

text \<open>
  The month of a constructed object lies in \<open>0..11\<close>, so the index into the array of
  monthly means is in range.
\<close>

definition get_molecular_absorption :: "fmode \<Rightarrow> guimera \<Rightarrow> real \<Rightarrow> real \<Rightarrow> real" where
  "get_molecular_absorption fm g height wl =
     (let sigma_a = fmul fm (lut_lerp fm (float_table fm ozone_cross_section_lut) wl)
                            (r32 fm (e10 1 (- 4)));
          total_ozone = fmul fm (r32 fm (ozone_mean_monthly_dobson ! nat (month g)))
                                (r32 fm (e10 2.6867 20));
          density = fmul fm (get_ozone_height_distribution fm height) total_ozone;
          density' = fdiv fm density (r32 fm (e10 9 3))
      in fmul fm sigma_a density')"

definition get_scattering :: "fmode \<Rightarrow> externals \<Rightarrow> guimera \<Rightarrow> real \<Rightarrow> real \<Rightarrow> real" where
  "get_scattering fm ext g height wl =
     (let scattering = get_molecular_scattering fm height wl
      in case aerosol g of
           None \<Rightarrow> scattering
         | Some a \<Rightarrow> fadd fm scattering (Aerosol_get_scattering fm ext a height wl))"

definition get_absorption :: "fmode \<Rightarrow> externals \<Rightarrow> guimera \<Rightarrow> real \<Rightarrow> real \<Rightarrow> real" where
  "get_absorption fm ext g height wl =
     (let absorption = get_molecular_absorption fm g height wl
      in case aerosol g of
           None \<Rightarrow> absorption
         | Some a \<Rightarrow> fadd fm absorption (Aerosol_get_absorption fm ext a height wl))"

definition get_extinction :: "fmode \<Rightarrow> externals \<Rightarrow> guimera \<Rightarrow> real \<Rightarrow> real \<Rightarrow> real" where
  "get_extinction fm ext g height wl =
     (let extinction = fadd fm (get_molecular_scattering fm height wl)
                               (get_molecular_absorption fm g height wl)
      in case aerosol g of
           None \<Rightarrow> extinction
         | Some a \<Rightarrow> fadd fm extinction (Aerosol_get_extinction fm ext a height wl))"

text \<open>
  \<open>phase_eval\<close>. The height of the point is taken exactly (\<open>height_at_point\<close>); the
  selection probability is a \<open>float\<close> quotient.
\<close>

definition phase_eval ::
  "fmode \<Rightarrow> externals \<Rightarrow> guimera \<Rightarrow> vec3 \<Rightarrow> real \<Rightarrow> vec3 \<Rightarrow> vec3 \<Rightarrow> real \<Rightarrow> real" where
  "phase_eval fm ext g p sample wo wi wl =
     (case aerosol g of
        None \<Rightarrow> PhaseFunction_p fm ext (phase_molecular g) wo wi wl
      | Some a \<Rightarrow>
          let height = height_at_point p;
              molecular_scattering = get_molecular_scattering fm height wl;
              aerosol_scattering = Aerosol_get_scattering fm ext a height wl;
              molecular_scattering_probability =
                fdiv fm molecular_scattering (fadd fm molecular_scattering aerosol_scattering)
          in if sample < molecular_scattering_probability
             then PhaseFunction_p fm ext (phase_molecular g) wo wi wl
             else PhaseFunction_p fm ext (phase_aerosol g) wo wi wl)"

text \<open>
  \<open>Atmosphere::get_max_extinction\<close> keeps the last wavelength and its result in two
  function-local statics, both initially 0: the cache is a state, passed in and
  returned. \<open>ext_at\<close> is the virtual \<open>get_extinction\<close> of the object.
\<close>

record max_extinction_cache =
  prev_wl :: real
  prev_max_extinction :: real

definition initial_cache :: max_extinction_cache where
  "initial_cache = \<lparr>prev_wl = 0, prev_max_extinction = 0\<rparr>"

definition Atmosphere_get_max_extinction ::
  "(real \<Rightarrow> real \<Rightarrow> real) \<Rightarrow> max_extinction_cache \<Rightarrow> real \<Rightarrow> real \<times> max_extinction_cache" where
  "Atmosphere_get_max_extinction ext_at cache wl =
     (if prev_wl cache = wl then (prev_max_extinction cache, cache)
      else let max_extinction = ext_at 0 wl
           in (max_extinction, \<lparr>prev_wl = wl, prev_max_extinction = max_extinction\<rparr>))"

definition get_max_extinction ::
  "fmode \<Rightarrow> externals \<Rightarrow> guimera \<Rightarrow> max_extinction_cache \<Rightarrow> real
     \<Rightarrow> real \<times> max_extinction_cache" where
  "get_max_extinction fm ext g cache wl =
     Atmosphere_get_max_extinction (get_extinction fm ext g) cache wl"

text \<open>
  A Guimera atmosphere seen through the abstract class, with the cache in a given
  state.
\<close>

definition as_atmosphere ::
  "fmode \<Rightarrow> externals \<Rightarrow> guimera \<Rightarrow> max_extinction_cache \<Rightarrow> atmosphere" where
  "as_atmosphere fm ext g cache =
     \<lparr>atm_get_absorption = get_absorption fm ext g,
      atm_get_scattering = get_scattering fm ext g,
      atm_get_extinction = get_extinction fm ext g,
      atm_get_max_extinction = (\<lambda>wl. fst (get_max_extinction fm ext g cache wl))\<rparr>"

text \<open>
  Configurations used below: the constructed atmosphere for January with no aerosol
  and with the desert-dust aerosol at turbidity 1, and one instance of the parameters
  on which the general statements are tried: constant cross-sections \<open>2\<^sup>-\<^sup>7\<^sup>0\<close> and
  \<open>2\<^sup>-\<^sup>6\<^sup>4\<close> (about \<open>8.5e-22\<close> and \<open>5.4e-20\<close>) and distinct constant phase values.
  These are not the tables of \<open>aerosol.cxx\<close>.
\<close>

definition clear_sky :: "fmode \<Rightarrow> guimera" where
  "clear_sky fm = fst (GuimeraAtmosphere fm 0 1 ''none'')"

definition dusty_sky :: "fmode \<Rightarrow> guimera" where
  "dusty_sky fm = fst (GuimeraAtmosphere fm 0 1 ''desert-dust'')"

definition sample_externals :: externals where
  "sample_externals =
     \<lparr>absorption_cross_section = (\<lambda>k wl. pow2 (- 70)),
      scattering_cross_section = (\<lambda>k wl. pow2 (- 64)),
      background_get_density = (\<lambda>a h. 0),
      phase_p = (\<lambda>ph wo wi wl. if ph = ChandrasekharPhase then 1 else 2)\<rparr>"

section \<open>Verified properties\<close>

subsection \<open>Ray against sphere\<close>

lemma on_sphere_quadratic:
  assumes "dot (ray_d r) (ray_d r) = 1"
  shows "on_sphere r sr t \<longleftrightarrow> t * t + 2 * rs_b r * t + rs_c r sr = 0"
proof -
  obtain ox oy oz where o: "ray_o r = Vec3 ox oy oz" by (cases "ray_o r")
  obtain dx dy dz where d: "ray_d r = Vec3 dx dy dz" by (cases "ray_d r")
  obtain cx cy cz where c: "EARTH_CENTER = Vec3 cx cy cz" by (cases EARTH_CENTER)
  from assms d have u: "dx * dx + dy * dy + dz * dz = 1" by (simp add: dot_def)
  have "(ox + dx * t - cx) * (ox + dx * t - cx) + (oy + dy * t - cy) * (oy + dy * t - cy)
        + (oz + dz * t - cz) * (oz + dz * t - cz)
      = (dx * dx + dy * dy + dz * dz) * (t * t)
        + 2 * ((ox - cx) * dx + (oy - cy) * dy + (oz - cz) * dz) * t
        + ((ox - cx) * (ox - cx) + (oy - cy) * (oy - cy) + (oz - cz) * (oz - cz))"
    by (simp add: algebra_simps)
  then show ?thesis
    by (simp add: on_sphere_def ray_at_def rs_b_def rs_c_def o d c vadd_def vsub_def
        vscale_def dot_def u) argo
qed

lemma ray_sphere_intersection_unfold:
  "ray_sphere_intersection r sr =
     (if rs_c r sr > 0 \<and> rs_b r > 0 then - 1
      else if rs_b r * rs_b r - rs_c r sr < 0 then - 1
      else if rs_b r * rs_b r - rs_c r sr > rs_b r * rs_b r
           then - rs_b r + sqrt (rs_b r * rs_b r - rs_c r sr)
      else - rs_b r - sqrt (rs_b r * rs_b r - rs_c r sr))"
  by (simp add: ray_sphere_intersection_def rs_b_def rs_c_def Let_def)

lemma quad_roots:
  fixes t b c :: real
  assumes "0 \<le> b * b - c"
  shows "t * t + 2 * b * t + c = 0 \<longleftrightarrow>
         t = - b + sqrt (b * b - c) \<or> t = - b - sqrt (b * b - c)"
proof -
  define s where "s = sqrt (b * b - c)"
  have s: "s * s = b * b - c" using assms by (simp add: s_def)
  have "(t + b - s) * (t + b + s) = t * t + 2 * b * t + b * b - s * s"
    by (simp add: algebra_simps)
  then have "t * t + 2 * b * t + c = (t + b - s) * (t + b + s)"
    using s by simp
  then have "t * t + 2 * b * t + c = 0 \<longleftrightarrow> t + b - s = 0 \<or> t + b + s = 0"
    by simp
  also have "\<dots> \<longleftrightarrow> t = - b + s \<or> t = - b - s" by auto
  finally show ?thesis by (simp add: s_def)
qed

lemma quad_no_roots:
  fixes t b c :: real
  assumes "b * b - c < 0"
  shows "t * t + 2 * b * t + c \<noteq> 0"
proof -
  have "t * t + 2 * b * t + c = (t + b) * (t + b) + (c - b * b)" by (simp add: algebra_simps)
  moreover have "0 \<le> (t + b) * (t + b)" by simp
  ultimately show ?thesis using assms by linarith
qed

text \<open>
  Away from the one configuration singled out below (origin exactly on the sphere,
  direction pointing outwards), the function does what its comment says: it returns
  \<open>-1\<close> and the ray has no point on the sphere ahead of it, or it returns the nearest
  non-negative distance at which the ray meets the sphere.
\<close>

lemma ray_sphere_intersection_sound:
  assumes unit: "dot (ray_d r) (ray_d r) = 1"
    and ok: "\<not> (rs_c r sr = 0 \<and> rs_b r > 0)"
  shows "ray_sphere_intersection r sr = - 1 \<and> (\<forall>t\<ge>0. \<not> on_sphere r sr t) \<or>
         0 \<le> ray_sphere_intersection r sr \<and> on_sphere r sr (ray_sphere_intersection r sr) \<and>
         (\<forall>t\<ge>0. on_sphere r sr t \<longrightarrow> ray_sphere_intersection r sr \<le> t)"
proof -
  let ?b = "rs_b r" and ?c = "rs_c r sr"
  let ?d = "?b * ?b - ?c"
  note q = on_sphere_quadratic [OF unit]
  consider (away) "?c > 0" "?b > 0" | (miss) "\<not> (?c > 0 \<and> ?b > 0)" "?d < 0"
    | (inside) "\<not> (?c > 0 \<and> ?b > 0)" "0 \<le> ?d" "?d > ?b * ?b"
    | (near) "\<not> (?c > 0 \<and> ?b > 0)" "0 \<le> ?d" "\<not> ?d > ?b * ?b"
    by linarith
  then show ?thesis
  proof cases
    case away
    have "\<not> on_sphere r sr t" if "0 \<le> t" for t
    proof -
      have "0 \<le> t * t" "0 \<le> ?b * t" using that away by simp_all
      then have "0 < t * t + 2 * ?b * t + ?c" using away by linarith
      then show ?thesis by (simp add: q)
    qed
    with away show ?thesis by (simp add: ray_sphere_intersection_unfold)
  next
    case miss
    then show ?thesis
      using quad_no_roots [of ?b ?c] by (simp add: ray_sphere_intersection_unfold q)
  next
    case inside
    let ?s = "sqrt ?d"
    have v: "ray_sphere_intersection r sr = - ?b + ?s"
      using inside by (auto simp: ray_sphere_intersection_unfold)
    have "sqrt (?b * ?b) < ?s" using inside by (subst real_sqrt_less_iff) simp
    then have big: "\<bar>?b\<bar> < ?s" by simp
    have "0 \<le> - ?b + ?s" using big by linarith
    moreover have "on_sphere r sr (- ?b + ?s)"
      using quad_roots [OF inside(2)] by (simp add: q)
    moreover have "- ?b + ?s \<le> t" if "0 \<le> t" "on_sphere r sr t" for t
    proof -
      from that(2) have "t = - ?b + ?s \<or> t = - ?b - ?s"
        using quad_roots [OF inside(2), of t] by (simp add: q)
      moreover have "- ?b - ?s < 0" using big by linarith
      ultimately show ?thesis using that(1) by auto
    qed
    ultimately show ?thesis unfolding v by blast
  next
    case near
    let ?s = "sqrt ?d"
    have v: "ray_sphere_intersection r sr = - ?b - ?s"
      using near by (auto simp: ray_sphere_intersection_unfold)
    have c0: "0 \<le> ?c" using near by simp
    have "?s \<le> sqrt (?b * ?b)" using near by (subst real_sqrt_le_iff) simp
    then have small: "?s \<le> \<bar>?b\<bar>" by simp
    have bneg: "?b \<le> 0" using near ok c0 by (cases "?c = 0") auto
    have s0: "0 \<le> ?s" using near by simp
    have "0 \<le> - ?b - ?s" using small bneg by linarith
    moreover have "on_sphere r sr (- ?b - ?s)"
      using quad_roots [OF near(2)] by (simp add: q)
    moreover have "- ?b - ?s \<le> t" if "0 \<le> t" "on_sphere r sr t" for t
    proof -
      from that(2) have "t = - ?b + ?s \<or> t = - ?b - ?s"
        using quad_roots [OF near(2), of t] by (simp add: q)
      then show ?thesis using s0 by auto
    qed
    ultimately show ?thesis unfolding v by blast
  qed
qed

text \<open>
  C4. The claim: \<open>ray_sphere_intersection\<close> returns the nearest non-negative distance
  at which the ray meets the sphere, or the sentinel \<open>-1\<close>, and never another negative
  number. The source does not do so for a ray that starts exactly on the sphere and
  points outwards (\<open>c = 0\<close>, \<open>b > 0\<close>): the first test needs \<open>c > 0\<close>, the discriminant
  equals \<open>b\<^sup>2\<close>, and the last branch returns \<open>-2 b\<close>. For the observer on the ground
  looking at the zenith, tested against the ground sphere, the result is \<open>-12742000\<close>,
  although the ray meets the sphere at distance 0 and its comment promises \<open>-1\<close> for a
  ray pointing away.
\<close>

theorem ray_sphere_intersection_surface_outward:
  "ray_sphere_intersection zenith_ray EARTH_RADIUS = - 12742000 \<and>
   on_sphere zenith_ray EARTH_RADIUS 0 \<and>
   rs_c zenith_ray EARTH_RADIUS = 0 \<and> 0 < rs_b zenith_ray \<and>
   dot (ray_d zenith_ray) (ray_d zenith_ray) = 1"
proof -
  have s: "sqrt 40589641000000 = 6371000"
    by (rule real_sqrt_unique) simp_all
  have "ray_sphere_intersection zenith_ray EARTH_RADIUS = - 12742000"
    by (simp add: ray_sphere_intersection_def zenith_ray_def Ray_def vsub_def dot_def
        EARTH_CENTER_def EARTH_RADIUS_def Let_def s)
  moreover have "on_sphere zenith_ray EARTH_RADIUS 0"
    by (simp add: on_sphere_def ray_at_def zenith_ray_def Ray_def vsub_def vadd_def
        vscale_def dot_def EARTH_CENTER_def EARTH_RADIUS_def)
  moreover have "rs_c zenith_ray EARTH_RADIUS = 0" "0 < rs_b zenith_ray"
    "dot (ray_d zenith_ray) (ray_d zenith_ray) = 1"
    by (simp_all add: rs_c_def rs_b_def zenith_ray_def Ray_def vsub_def dot_def
        EARTH_CENTER_def EARTH_RADIUS_def)
  ultimately show ?thesis by blast
qed

subsection \<open>Scene intersection\<close>

text \<open>
  For an origin that the source takes to be outside (\<open>z \<ge>\<close> thickness) and that is
  outside the atmosphere sphere, with the atmosphere hit and the ground missed, the
  returned distance is the smaller root \<open>- b - sqrt d\<close>: the distance at which the
  ray enters the atmosphere.
\<close>

lemma scene_intersect_outside_near_root:
  assumes "vz (ray_o r) \<ge> ATMOSPHERE_THICKNESS"
    and "0 < rs_c r ATMOSPHERE_RADIUS"
    and "0 \<le> ray_sphere_intersection r ATMOSPHERE_RADIUS"
    and "ray_sphere_intersection r EARTH_RADIUS < 0"
  shows "scene_intersect r =
    (- rs_b r - sqrt (rs_b r * rs_b r - rs_c r ATMOSPHERE_RADIUS), False)"
proof -
  have "ray_sphere_intersection r ATMOSPHERE_RADIUS =
        - rs_b r - sqrt (rs_b r * rs_b r - rs_c r ATMOSPHERE_RADIUS)"
    using assms(2,3) by (auto simp: ray_sphere_intersection_unfold split: if_splits)
  then show ?thesis
    using assms by (simp add: scene_intersect_def Let_def)
qed

lemma sqrt_grazing_bounds: "0 < sqrt 954790760000" "sqrt 954790760000 < 1000000"
proof -
  show "0 < sqrt 954790760000" by simp
  have "sqrt 954790760000 < sqrt (1000000 * 1000000)"
    by (subst real_sqrt_less_iff) simp
  then show "sqrt 954790760000 < 1000000" by simp
qed

text \<open>
  C1. The claim: for a ray from outside the atmosphere that hits the atmosphere and
  misses the ground, \<open>scene_intersect\<close> returns the distance at which the ray leaves
  the atmosphere. The source builds the displaced ray \<open>new_ray\<close> and then calls
  \<open>ray_sphere_intersection\<close> on the undisplaced \<open>ray\<close>, which gives the entry distance.
  At \<open>grazing_ray\<close> (origin outside, unit direction, atmosphere hit, ground missed) it
  returns \<open>2422600 - sqrt 954790760000\<close>, about 1445 km, while the ray leaves the
  atmosphere at \<open>2422600 + sqrt 954790760000\<close>, about 3400 km.
\<close>

theorem scene_intersect_outside_returns_entry:
  "scene_intersect grazing_ray = (2422600 - sqrt 954790760000, False) \<and>
   on_sphere grazing_ray ATMOSPHERE_RADIUS (2422600 - sqrt 954790760000) \<and>
   on_sphere grazing_ray ATMOSPHERE_RADIUS (2422600 + sqrt 954790760000) \<and>
   2422600 - sqrt 954790760000 < 2422600 + sqrt 954790760000 \<and>
   0 < rs_c grazing_ray ATMOSPHERE_RADIUS \<and>
   dot (ray_d grazing_ray) (ray_d grazing_ray) = 1 \<and>
   0 \<le> ray_sphere_intersection grazing_ray ATMOSPHERE_RADIUS \<and>
   ray_sphere_intersection grazing_ray EARTH_RADIUS < 0"
proof -
  note defs = grazing_ray_def Ray_def vsub_def vadd_def vscale_def dot_def EARTH_CENTER_def
    EARTH_RADIUS_def ATMOSPHERE_RADIUS_def ATMOSPHERE_THICKNESS_def
  have s: "sqrt 954790760000 * sqrt 954790760000 = 954790760000" by simp
  have a: "ray_sphere_intersection grazing_ray ATMOSPHERE_RADIUS = 2422600 - sqrt 954790760000"
    using sqrt_grazing_bounds by (simp add: ray_sphere_intersection_def defs Let_def)
  have e: "ray_sphere_intersection grazing_ray EARTH_RADIUS = - 1"
    by (simp add: ray_sphere_intersection_def defs Let_def)
  have "scene_intersect grazing_ray = (2422600 - sqrt 954790760000, False)"
    using sqrt_grazing_bounds by (simp add: scene_intersect_def a e Let_def)
  moreover have "on_sphere grazing_ray ATMOSPHERE_RADIUS (2422600 - sqrt 954790760000)"
    by (simp add: on_sphere_def ray_at_def defs algebra_simps s)
  moreover have "on_sphere grazing_ray ATMOSPHERE_RADIUS (2422600 + sqrt 954790760000)"
    by (simp add: on_sphere_def ray_at_def defs algebra_simps s)
  moreover have "2422600 - sqrt 954790760000 < 2422600 + sqrt 954790760000"
    using sqrt_grazing_bounds by simp
  moreover have "0 < rs_c grazing_ray ATMOSPHERE_RADIUS"
    "dot (ray_d grazing_ray) (ray_d grazing_ray) = 1"
    by (simp_all add: rs_c_def defs)
  moreover have "0 \<le> ray_sphere_intersection grazing_ray ATMOSPHERE_RADIUS"
    using sqrt_grazing_bounds by (simp add: a)
  ultimately show ?thesis using e by simp
qed

subsection \<open>The random stream\<close>

lemma next_float_grid:
  "\<exists>k. k < 2 ^ 24 \<and> fst (next_float g) = real k / 2 ^ 24"
proof -
  obtain u g' where ng: "next_uint g = (u, g')" by (cases "next_uint g")
  let ?k = "unat (drop_bit 8 u)"
  have "unat u < 2 ^ 32" using unsigned_less [of u, where ?'a = nat] by simp
  then have "unat u div 2 ^ 8 < 2 ^ 24" by simp
  then have k: "?k < 2 ^ 24" by (simp add: unat_drop_bit_eq drop_bit_eq_div unat_div)
  have "fst (next_float g) = real ?k / 2 ^ 24"
    by (simp add: next_float_def ng)
  with k show ?thesis by blast
qed

lemma grid_binary32:
  assumes "k < (2::nat) ^ 24"
  shows "binary32 (real k)" "binary32 (real k / 2 ^ 24)" "binary32 (1 - real k / 2 ^ 24)"
proof -
  have k: "int k < 2 ^ 24" using assms by (metis of_nat_less_iff of_nat_numeral of_nat_power)
  show "binary32 (real k)"
    unfolding binary32_def
    by (rule exI [of _ "int k"], rule exI [of _ 0]) (use k in \<open>simp add: pow2_def\<close>)
  show "binary32 (real k / 2 ^ 24)"
    unfolding binary32_def
    by (rule exI [of _ "int k"], rule exI [of _ "- 24"]) (use k in \<open>simp add: pow2_def\<close>)
  show "binary32 (1 - real k / 2 ^ 24)"
    unfolding binary32_def
  proof (cases "k = 0")
    case True
    show "\<exists>m e. \<bar>m\<bar> < 2 ^ 24 \<and> - 149 \<le> e \<and> e \<le> 104 \<and> 1 - real k / 2 ^ 24 = real_of_int m * pow2 e"
      by (rule exI [of _ 1], rule exI [of _ 0]) (simp add: True pow2_def)
  next
    case False
    have "1 - real k / 2 ^ 24 = real_of_int (2 ^ 24 - int k) * pow2 (- 24)"
      by (simp add: pow2_def field_simps)
    moreover have "\<bar>2 ^ 24 - int k\<bar> < 2 ^ 24" using k False by simp
    ultimately show "\<exists>m e. \<bar>m\<bar> < 2 ^ 24 \<and> - 149 \<le> e \<and> e \<le> 104 \<and> 1 - real k / 2 ^ 24 = real_of_int m * pow2 e"
      by (intro exI [of _ "2 ^ 24 - int k"] exI [of _ "- 24"]) simp
  qed
qed

text \<open>
  C10. Every value returned by \<open>next_float\<close> is \<open>k / 2\<^sup>2\<^sup>4\<close> for a natural number
  \<open>k < 2\<^sup>2\<^sup>4\<close>; it lies in \<open>[0, 1)\<close>, is never 1, and \<open>1 - next_float()\<close> is strictly
  positive, so the logarithm in the step-length formula is taken of a positive number.
  The integer \<open>k\<close>, the quotient and the difference are binary32 numbers, so the
  conversion to \<open>float\<close>, the multiplication by \<open>2\<^sup>-\<^sup>2\<^sup>4\<close> and the subtraction from 1
  are exact in the source's arithmetic.
\<close>

theorem next_float_range:
  "(\<exists>k. k < 2 ^ 24 \<and> fst (next_float g) = real k / 2 ^ 24 \<and> binary32 (real k)) \<and>
   binary32 (fst (next_float g)) \<and>
   0 \<le> fst (next_float g) \<and> fst (next_float g) < 1 \<and> fst (next_float g) \<noteq> 1 \<and>
   0 < 1 - fst (next_float g) \<and> binary32 (1 - fst (next_float g))"
proof -
  obtain k :: nat where k: "k < 2 ^ 24" "fst (next_float g) = real k / 2 ^ 24"
    using next_float_grid by blast
  have "real k < 2 ^ 24" using k(1) by (metis of_nat_less_iff of_nat_numeral of_nat_power)
  then have r: "0 \<le> fst (next_float g) \<and> fst (next_float g) < 1" using k(2) by simp
  have b: "binary32 (fst (next_float g))" "binary32 (1 - fst (next_float g))"
    unfolding k(2) by (rule grid_binary32 [OF k(1)])+
  have "\<exists>k. k < 2 ^ 24 \<and> fst (next_float g) = real k / 2 ^ 24 \<and> binary32 (real k)"
    using k grid_binary32(1) [OF k(1)] by blast
  with r b show ?thesis by simp
qed

lemma nf_default: "fst (next_float pcg32_default) = 1342135 / 16777216"
  by (simp add: next_float_def next_uint_def pcg32_default_def seed_def PCG32_DEFAULT_SEQ_def PCG32_DEFAULT_STATE_def Let_def)

lemma next_float_unit:
  "0 \<le> fst (next_float g) \<and> fst (next_float g) < 1"
proof -
  obtain k :: nat where k: "k < 2 ^ 24" "fst (next_float g) = real k / 2 ^ 24"
    using next_float_grid by blast
  have "real k < 2 ^ 24" using k(1) by (metis of_nat_less_iff of_nat_numeral of_nat_power)
  then show ?thesis using k(2) by simp
qed

text \<open>The first draw of the default-seeded stream.\<close>

theorem next_float_range_witness:
  "fst (next_float pcg32_default) = 1342135 / 16777216 \<and>
   0 \<le> fst (next_float pcg32_default) \<and> fst (next_float pcg32_default) < 1 \<and>
   binary32 (1 - fst (next_float pcg32_default))"
proof -
  have "binary32 (1 - fst (next_float pcg32_default))"
    "0 \<le> fst (next_float pcg32_default)" "fst (next_float pcg32_default) < 1"
    using next_float_range [of pcg32_default] by blast+
  then show ?thesis using nf_default by blast
qed


subsection \<open>Tiles\<close>

lemma wrap32_id: "- (2 ^ 31) \<le> a \<Longrightarrow> a < 2 ^ 31 \<Longrightarrow> wrap32 a = a"
  by (simp add: wrap32_def)

lemma prepare_tiles_i_closed:
  "i \<le> x_tiles \<Longrightarrow>
   prepare_tiles_i W H TW TH x_tiles y_tiles j i tiles =
     tiles @ map (make_tile W H TW TH x_tiles y_tiles j) [i..x_tiles - 1]"
proof (induction W H TW TH x_tiles y_tiles j i tiles rule: prepare_tiles_i.induct)
  case (1 W H TW TH x_tiles y_tiles j i tiles)
  show ?case
  proof (cases "i < x_tiles")
    case True
    then have "[i..x_tiles - 1] = i # [i + 1..x_tiles - 1]" by (simp add: upto_rec1)
    with True 1 show ?thesis by (subst prepare_tiles_i.simps) simp
  next
    case False
    then show ?thesis by (subst prepare_tiles_i.simps) simp
  qed
qed

lemma prepare_tiles_j_closed:
  "j \<le> y_tiles \<Longrightarrow> 0 \<le> x_tiles \<Longrightarrow>
   prepare_tiles_j W H TW TH x_tiles y_tiles j tiles =
     tiles @ concat (map (\<lambda>j'. map (make_tile W H TW TH x_tiles y_tiles j') [0..x_tiles - 1])
                      [j..y_tiles - 1])"
proof (induction W H TW TH x_tiles y_tiles j tiles rule: prepare_tiles_j.induct)
  case (1 W H TW TH x_tiles y_tiles j tiles)
  show ?case
  proof (cases "j < y_tiles")
    case True
    then have "[j..y_tiles - 1] = j # [j + 1..y_tiles - 1]" by (simp add: upto_rec1)
    with True 1 show ?thesis
      by (subst prepare_tiles_j.simps) (simp add: prepare_tiles_i_closed)
  next
    case False
    then show ?thesis by (subst prepare_tiles_j.simps) simp
  qed
qed


lemma tiles_count_bounds:
  fixes W TW :: int
  assumes "0 < W" "0 < TW"
  shows "1 \<le> (W + TW - 1) div TW" "((W + TW - 1) div TW - 1) * TW < W"
    "W \<le> (W + TW - 1) div TW * TW" "(W + TW - 1) div TW \<le> W + TW - 1"
proof -
  define n where "n = (W + TW - 1) div TW"
  define r where "r = (W + TW - 1) mod TW"
  have e: "n * TW + r = W + TW - 1" by (simp add: n_def r_def)
  have m: "0 \<le> r" "r < TW" using assms by (simp_all add: r_def)
  have d: "(n - 1) * TW = n * TW - TW" by (simp add: algebra_simps)
  have 1: "W \<le> n * TW" using e m by linarith
  have 2: "(n - 1) * TW < W" using e m d by linarith
  have "0 < n * TW" using 1 assms by linarith
  then have "0 < n" using assms(2) by (simp add: zero_less_mult_iff)
  then have 3: "1 \<le> n" by simp
  have "n * 1 \<le> n * TW" using 3 assms(2) by (intro mult_left_mono) simp_all
  then have 4: "n \<le> W + TW - 1" using e m by linarith
  show "1 \<le> (W + TW - 1) div TW" "((W + TW - 1) div TW - 1) * TW < W"
    "W \<le> (W + TW - 1) div TW * TW" "(W + TW - 1) div TW \<le> W + TW - 1"
    using 1 2 3 4 by (simp_all add: n_def)
qed

lemma x_tiles_value:
  assumes "0 < W" "0 < TW" "W + TW < 2 ^ 31"
  shows "int_div (int_sub (int_add W TW) 1) TW = (W + TW - 1) div TW"
proof -
  have a: "int_add W TW = W + TW" using assms by (simp add: int_add_def wrap32_id)
  have b: "int_sub (W + TW) 1 = W + TW - 1" using assms by (simp add: int_sub_def wrap32_id)
  have "(W + TW - 1) sdiv TW = (W + TW - 1) div TW"
    using assms by (simp add: signed_divide_int_def sgn_if)
  moreover have "0 \<le> (W + TW - 1) div TW" using assms by (simp add: pos_imp_zdiv_nonneg_iff)
  moreover have "(W + TW - 1) div TW \<le> W + TW - 1"
    by (rule tiles_count_bounds(4) [OF assms(1,2)])
  ultimately show ?thesis using assms by (simp add: int_div_def a b wrap32_id)
qed

lemma mult_less_bound:
  fixes i n TW W :: int
  assumes "0 \<le> i" "i < n" "0 < TW" "(n - 1) * TW < W"
  shows "i * TW < W" "i \<noteq> n - 1 \<Longrightarrow> i * TW + TW < W"
proof -
  have "i * TW \<le> (n - 1) * TW" using assms by (intro mult_right_mono) simp_all
  then show "i * TW < W" using assms by linarith
  assume "i \<noteq> n - 1"
  then have "i + 1 \<le> n - 1" using assms by simp
  then have "(i + 1) * TW \<le> (n - 1) * TW" using assms by (intro mult_right_mono) simp_all
  then show "i * TW + TW < W" using assms by (simp add: algebra_simps)
qed

lemma make_tile_grid:
  assumes "0 < W" "0 < TW" "W + TW < 2 ^ 31"
    and "0 < H" "0 < TH" "H + TH < 2 ^ 31"
    and "0 \<le> i" "i < (W + TW - 1) div TW" "0 \<le> j" "j < (H + TH - 1) div TH"
  shows "make_tile W H TW TH ((W + TW - 1) div TW) ((H + TH - 1) div TH) j i = grid_tile W H TW TH j i"
proof -
  let ?nx = "(W + TW - 1) div TW" and ?ny = "(H + TH - 1) div TH"
  note bx = tiles_count_bounds [OF assms(1,2)] and by' = tiles_count_bounds [OF assms(4,5)]
  note mx = mult_less_bound [OF assms(7,8) assms(2) bx(2)]
    and my = mult_less_bound [OF assms(9,10) assms(5) by'(2)]
  note nx = bx(4) and ny = by'(4)
  have sx: "int_sub ?nx 1 = ?nx - 1" using bx(1) nx assms(3) by (simp add: int_sub_def wrap32_id)
  have sy: "int_sub ?ny 1 = ?ny - 1" using by'(1) ny assms(6) by (simp add: int_sub_def wrap32_id)
  have ix: "0 \<le> i * TW" using assms by simp
  have iy: "0 \<le> j * TH" using assms by simp
  have x0: "int_mul i TW = i * TW"
    unfolding int_mul_def by (rule wrap32_id) (use ix mx(1) assms(1-3) in linarith)+
  have y0: "int_mul j TH = j * TH"
    unfolding int_mul_def by (rule wrap32_id) (use iy my(1) assms(4-6) in linarith)+
  have x1: "int_add (i * TW) TW = i * TW + TW" if "i \<noteq> ?nx - 1"
    unfolding int_add_def by (rule wrap32_id) (use ix mx(2) [OF that] assms(1-3) in linarith)+
  have y1: "int_add (j * TH) TH = j * TH + TH" if "j \<noteq> ?ny - 1"
    unfolding int_add_def by (rule wrap32_id) (use iy my(2) [OF that] assms(4-6) in linarith)+
  show ?thesis
    by (simp add: make_tile_def grid_tile_def Let_def sx sy x0 y0 x1 y1)
qed


lemma filter_map_upto_single:
  fixes a b k :: int
  assumes "a \<le> k" "k \<le> b" "\<And>i. a \<le> i \<Longrightarrow> i \<le> b \<Longrightarrow> P (g i) \<longleftrightarrow> i = k"
  shows "filter P (map g [a..b]) = [g k]"
proof -
  have "[a..b] = [a..k - 1] @ k # [k + 1..b]" using assms(1,2) by (rule upto_split3)
  moreover have "filter P (map g [a..k - 1]) = []" using assms by (auto simp: filter_empty_conv)
  moreover have "filter P (map g [k + 1..b]) = []" using assms by (auto simp: filter_empty_conv)
  moreover have "P (g k)" using assms by simp
  ultimately show ?thesis by simp
qed

lemma filter_concat_nil:
  assumes "\<And>j. j \<in> set js \<Longrightarrow> filter P (row j) = []"
  shows "filter P (concat (map row js)) = []"
  using assms by (induction js) simp_all

lemma filter_concat_upto_single:
  fixes a b k :: int
  assumes "a \<le> k" "k \<le> b"
    "\<And>j. a \<le> j \<Longrightarrow> j \<le> b \<Longrightarrow> j \<noteq> k \<Longrightarrow> filter P (row j) = []"
  shows "filter P (concat (map row [a..b])) = filter P (row k)"
proof -
  have s: "[a..b] = [a..k - 1] @ k # [k + 1..b]" using assms(1,2) by (rule upto_split3)
  have 1: "filter P (concat (map row [a..k - 1])) = []"
    by (rule filter_concat_nil) (use assms in auto)
  have 2: "filter P (concat (map row [k + 1..b])) = []"
    by (rule filter_concat_nil) (use assms in auto)
  show ?thesis by (simp add: s 1 2)
qed

lemma in_grid_tile_iff:
  assumes "0 < W" "0 < TW" "0 < H" "0 < TH"
    and "0 \<le> x" "x < W" "0 \<le> y" "y < H"
    and "0 \<le> i" "i \<le> (W + TW - 1) div TW - 1" "0 \<le> j" "j \<le> (H + TH - 1) div TH - 1"
  shows "in_tile (grid_tile W H TW TH j i) x y \<longleftrightarrow> i = x div TW \<and> j = y div TH"
proof -
  have col: "(i * TW \<le> x \<and> x < (if i = (W + TW - 1) div TW - 1 then W else i * TW + TW))
             \<longleftrightarrow> i = x div TW"
    if "0 < W" "0 < TW" "0 \<le> x" "x < W" "0 \<le> i" "i \<le> (W + TW - 1) div TW - 1"
    for W TW x i :: int
  proof -
    define n where "n = (W + TW - 1) div TW"
    note b = tiles_count_bounds [OF that(1,2), folded n_def]
    define q where "q = x div TW"
    define r where "r = x mod TW"
    have e: "q * TW + r = x" by (simp add: q_def r_def)
    have m: "0 \<le> r" "r < TW" using that by (simp_all add: r_def)
    have le: "i \<le> n - 1" using that by (simp add: n_def)
    show ?thesis
    proof
      assume a: "i * TW \<le> x \<and> x < (if i = (W + TW - 1) div TW - 1 then W else i * TW + TW)"
      have up: "x < (i + 1) * TW"
      proof (cases "i = n - 1")
        case True
        then show ?thesis using b(3) that(4) by (simp add: algebra_simps)
      next
        case False
        then show ?thesis using a by (simp add: n_def algebra_simps)
      qed
      have "\<not> i < q"
      proof
        assume "i < q"
        then have "(i + 1) * TW \<le> q * TW" using that(2) by (intro mult_right_mono) simp_all
        then show False using up e m by linarith
      qed
      moreover have "\<not> q < i"
      proof
        assume "q < i"
        then have "(q + 1) * TW \<le> i * TW" using that(2) by (intro mult_right_mono) simp_all
        then show False using a e m by (simp add: algebra_simps) 
      qed
      ultimately show "i = x div TW" by (simp add: q_def)
    next
      assume "i = x div TW"
      then have iq: "i = q" by (simp add: q_def)
      have "i * TW \<le> x" unfolding iq using e m by linarith
      moreover have "x < i * TW + TW" unfolding iq using e m by linarith
      ultimately show "i * TW \<le> x \<and> x < (if i = (W + TW - 1) div TW - 1 then W else i * TW + TW)"
        using that(4) by simp
    qed
  qed
  from col [OF assms(1,2,5,6,9,10)] col [OF assms(3,4,7,8,11,12)]
  show ?thesis unfolding in_tile_def grid_tile_def tile.sel by blast
qed


lemma prepare_tiles_grid:
  assumes "0 < W" "0 < TW" "W + TW < 2 ^ 31"
    and "0 < H" "0 < TH" "H + TH < 2 ^ 31"
  shows "prepare_tiles W H TW TH =
    concat (map (\<lambda>j. map (grid_tile W H TW TH j) [0..(W + TW - 1) div TW - 1])
                [0..(H + TH - 1) div TH - 1])"
proof -
  let ?nx = "(W + TW - 1) div TW" and ?ny = "(H + TH - 1) div TH"
  note bx = tiles_count_bounds [OF assms(1,2)] and by' = tiles_count_bounds [OF assms(4,5)]
  have "prepare_tiles W H TW TH = prepare_tiles_j W H TW TH ?nx ?ny 0 []"
    by (simp add: prepare_tiles_def x_tiles_value [OF assms(1-3)] x_tiles_value [OF assms(4-6)])
  also have "\<dots> = concat (map (\<lambda>j. map (make_tile W H TW TH ?nx ?ny j) [0..?nx - 1]) [0..?ny - 1])"
    using bx(1) by'(1) by (subst prepare_tiles_j_closed) simp_all
  also have "\<dots> = concat (map (\<lambda>j. map (grid_tile W H TW TH j) [0..?nx - 1]) [0..?ny - 1])"
    by (intro arg_cong [where f = concat] map_cong refl)
      (use assms in \<open>simp add: make_tile_grid\<close>)
  finally show ?thesis .
qed

lemma grid_tile_shape:
  fixes W TW i :: int
  assumes "0 < W" "0 < TW" "0 \<le> i" "i \<le> (W + TW - 1) div TW - 1"
  defines "x1 \<equiv> (if i = (W + TW - 1) div TW - 1 then W else i * TW + TW)"
  shows "0 \<le> i * TW" "i * TW < x1" "x1 \<le> W" "x1 - i * TW \<le> TW" "x1 < W \<Longrightarrow> x1 - i * TW = TW"
proof -
  let ?n = "(W + TW - 1) div TW"
  note b = tiles_count_bounds [OF assms(1,2)]
  have lt: "i < ?n" using assms(4) by simp
  note m = mult_less_bound [OF assms(3) lt assms(2) b(2)]
  show 0: "0 \<le> i * TW" using assms by simp
  show "i * TW < x1"
  proof (cases "i = ?n - 1")
    case True
    then have "x1 = W" by (simp add: x1_def)
    then show ?thesis using m(1) by simp
  next
    case False
    then have "x1 = i * TW + TW" by (simp add: x1_def)
    then show ?thesis using assms(2) by simp
  qed
  show "x1 \<le> W"
  proof (cases "i = ?n - 1")
    case True
    then show ?thesis by (simp add: x1_def)
  next
    case False
    then have "x1 = i * TW + TW" by (simp add: x1_def)
    then show ?thesis using m(2) [OF False] by simp
  qed
  have "W - i * TW \<le> TW" if "i = ?n - 1"
  proof -
    have "(?n - 1) * TW = ?n * TW - TW" by (simp add: algebra_simps)
    then show ?thesis using b(3) that by simp
  qed
  then show "x1 - i * TW \<le> TW" by (simp add: x1_def)
  show "x1 - i * TW = TW" if "x1 < W" using that by (simp add: x1_def split: if_splits)
qed

lemma div_index_bounds:
  fixes x W TW :: int
  assumes "0 < W" "0 < TW" "0 \<le> x" "x < W"
  shows "0 \<le> x div TW" "x div TW \<le> (W + TW - 1) div TW - 1"
proof -
  note b = tiles_count_bounds [OF assms(1,2)]
  show "0 \<le> x div TW" using assms by (simp add: pos_imp_zdiv_nonneg_iff)
  have "x div TW * TW + x mod TW = x" by simp
  moreover have "0 \<le> x mod TW" using assms(2) by simp
  ultimately have "x div TW * TW \<le> x" by linarith
  then have "x div TW * TW < (W + TW - 1) div TW * TW" using assms(4) b(3) by linarith
  then have "x div TW < (W + TW - 1) div TW" using assms(2) by (simp add: mult_less_cancel_right)
  then show "x div TW \<le> (W + TW - 1) div TW - 1" by simp
qed

text \<open>
  C9, amended. For positive image and tile sizes whose sums \<open>width + tile_width\<close> and
  \<open>height + tile_height\<close> fit in an \<open>int\<close>, the tiles made by \<open>prepare_tiles\<close>
  partition the image: every pixel of \<open>[0, width) \<times> [0, height)\<close> belongs to exactly
  one tile of the list (the one in column \<open>x div tile_width\<close> and row
  \<open>y div tile_height\<close>); every tile is non-empty, lies inside the image and is at most
  \<open>tile_width \<times> tile_height\<close>; and a tile that does not end at the right (bottom)
  border of the image has exactly the configured width (height).
\<close>

theorem prepare_tiles_partition:
  assumes "0 < W" "0 < TW" "W + TW < 2 ^ 31"
    and "0 < H" "0 < TH" "H + TH < 2 ^ 31"
  shows "(\<forall>x y. 0 \<le> x \<and> x < W \<and> 0 \<le> y \<and> y < H \<longrightarrow>
            filter (\<lambda>t. in_tile t x y) (prepare_tiles W H TW TH)
              = [grid_tile W H TW TH (y div TH) (x div TW)]) \<and>
         (\<forall>t \<in> set (prepare_tiles W H TW TH).
            0 \<le> tx0 t \<and> tx0 t < tx1 t \<and> tx1 t \<le> W \<and> tx1 t - tx0 t \<le> TW \<and>
            (tx1 t < W \<longrightarrow> tx1 t - tx0 t = TW) \<and>
            0 \<le> ty0 t \<and> ty0 t < ty1 t \<and> ty1 t \<le> H \<and> ty1 t - ty0 t \<le> TH \<and>
            (ty1 t < H \<longrightarrow> ty1 t - ty0 t = TH))"
proof -
  let ?nx = "(W + TW - 1) div TW" and ?ny = "(H + TH - 1) div TH"
  note grid = prepare_tiles_grid [OF assms]
  have part: "filter (\<lambda>t. in_tile t x y) (prepare_tiles W H TW TH)
              = [grid_tile W H TW TH (y div TH) (x div TW)]"
    if xy: "0 \<le> x" "x < W" "0 \<le> y" "y < H" for x y
  proof -
    let ?i = "x div TW" and ?j = "y div TH"
    let ?P = "\<lambda>t. in_tile t x y"
    note bi = div_index_bounds [OF assms(1,2) xy(1,2)]
    note bj = div_index_bounds [OF assms(4,5) xy(3,4)]
    note iff = in_grid_tile_iff [OF assms(1,2,4,5) xy]
    have other: "filter ?P (map (grid_tile W H TW TH j) [0..?nx - 1]) = []"
      if j: "0 \<le> j" "j \<le> ?ny - 1" "j \<noteq> ?j" for j
    proof -
      have "\<not> ?P (grid_tile W H TW TH j i)" if "i \<in> set [0..?nx - 1]" for i
        using iff [of i j] that j by simp
      then show ?thesis by (simp add: filter_empty_conv)
    qed
    have own: "filter ?P (map (grid_tile W H TW TH ?j) [0..?nx - 1]) = [grid_tile W H TW TH ?j ?i]"
    proof (rule filter_map_upto_single [OF bi])
      fix i assume "0 \<le> i" "i \<le> ?nx - 1"
      from iff [OF this bj] show "?P (grid_tile W H TW TH ?j i) \<longleftrightarrow> i = ?i" by simp
    qed
    have "filter ?P (concat (map (\<lambda>j. map (grid_tile W H TW TH j) [0..?nx - 1]) [0..?ny - 1]))
          = filter ?P (map (grid_tile W H TW TH ?j) [0..?nx - 1])"
      by (rule filter_concat_upto_single [OF bj]) (rule other)
    then show ?thesis by (simp only: grid own)
  qed
  have shape: "0 \<le> tx0 t \<and> tx0 t < tx1 t \<and> tx1 t \<le> W \<and> tx1 t - tx0 t \<le> TW \<and>
            (tx1 t < W \<longrightarrow> tx1 t - tx0 t = TW) \<and>
            0 \<le> ty0 t \<and> ty0 t < ty1 t \<and> ty1 t \<le> H \<and> ty1 t - ty0 t \<le> TH \<and>
            (ty1 t < H \<longrightarrow> ty1 t - ty0 t = TH)"
    if "t \<in> set (prepare_tiles W H TW TH)" for t
  proof -
    from that obtain i j where ij: "0 \<le> i" "i \<le> ?nx - 1" "0 \<le> j" "j \<le> ?ny - 1"
      and t: "t = grid_tile W H TW TH j i"
      unfolding grid by auto
    note sx = grid_tile_shape [OF assms(1,2) ij(1,2)] and sy = grid_tile_shape [OF assms(4,5) ij(3,4)]
    show ?thesis
      unfolding t grid_tile_def tile.sel using sx sy by blast
  qed
  from part shape show ?thesis by blast
qed

text \<open>A 5 \<times> 3 image in 2 \<times> 2 tiles: the pixel (4, 2) lies in the clipped corner tile only.\<close>

theorem prepare_tiles_partition_witness:
  "filter (\<lambda>t. in_tile t 4 2) (prepare_tiles 5 3 2 2) = [Tile 4 5 2 3] \<and>
   Tile 4 5 2 3 \<in> set (prepare_tiles 5 3 2 2)"
proof -
  have "filter (\<lambda>t. in_tile t 4 2) (prepare_tiles 5 3 2 2) = [grid_tile 5 3 2 2 (2 div 2) (4 div 2)]"
    using prepare_tiles_partition [of 5 2 3 2] by simp
  then have f: "filter (\<lambda>t. in_tile t 4 2) (prepare_tiles 5 3 2 2) = [Tile 4 5 2 3]"
    by (simp add: grid_tile_def)
  have "Tile 4 5 2 3 \<in> set (filter (\<lambda>t. in_tile t 4 2) (prepare_tiles 5 3 2 2))"
    by (simp only: f) simp
  then have "Tile 4 5 2 3 \<in> set (prepare_tiles 5 3 2 2)"
    by (rule subsetD [OF filter_is_subset])
  with f show ?thesis by (rule conjI)
qed

text \<open>
  C9, as stated, fails at the edge of the \<open>int\<close> range: for an image of width
  \<open>2147483647\<close> and height 1 with the default 32 \<times> 32 tiles, \<open>width + tile_width\<close>
  overflows, \<open>x_tiles\<close> is negative, no tile is made and the pixel (0, 0) belongs to
  none.
\<close>

theorem prepare_tiles_overflow:
  "prepare_tiles 2147483647 1 32 32 = [] \<and>
   filter (\<lambda>t. in_tile t 0 0) (prepare_tiles 2147483647 1 32 32) = []"
  by (simp add: prepare_tiles_def int_div_def int_sub_def int_add_def wrap32_def
      signed_divide_int_def prepare_tiles_j.simps prepare_tiles_i.simps Let_def)

subsection \<open>Construction of the atmosphere\<close>

text \<open>
  C8. The constructor does not fail on a bad configuration. For an aerosol-type string
  that is none of the ten names it yields an object without aerosol and warns; for a
  month outside \<open>0..11\<close> it yields month 0 (January) and warns. In every case it
  returns an object, and the month of the object is in \<open>0..11\<close>; a month in range is
  kept.
\<close>

theorem GuimeraAtmosphere_recovers:
  "(aerosol_type \<notin> set aerosol_type_names \<longrightarrow>
      aerosol (fst (GuimeraAtmosphere fm m t aerosol_type)) = None \<and>
      UnknownAerosolType aerosol_type \<in> set (snd (GuimeraAtmosphere fm m t aerosol_type))) \<and>
   (m < 0 \<or> 11 < m \<longrightarrow>
      month (fst (GuimeraAtmosphere fm m t aerosol_type)) = 0 \<and>
      InvalidMonth m \<in> set (snd (GuimeraAtmosphere fm m t aerosol_type))) \<and>
   (0 \<le> m \<and> m \<le> 11 \<longrightarrow> month (fst (GuimeraAtmosphere fm m t aerosol_type)) = m) \<and>
   0 \<le> month (fst (GuimeraAtmosphere fm m t aerosol_type)) \<and>
   month (fst (GuimeraAtmosphere fm m t aerosol_type)) \<le> 11 \<and>
   phase_molecular (fst (GuimeraAtmosphere fm m t aerosol_type)) = ChandrasekharPhase"
  by (simp add: GuimeraAtmosphere_def aerosol_type_names_def Let_def split: prod.splits)

lemma exact_simps [simp]:
  "r32 exact x = x" "r64 exact x = x" "fadd exact a b = a + b" "fsub exact a b = a - b"
  "fmul exact a b = a * b" "fdiv exact a b = a / b" "expf exact a = exp a"
  by (simp_all add: exact_def fadd_def fsub_def fmul_def fdiv_def expf_def)

text \<open>Month 12 and the unknown aerosol type \<open>smog\<close>: January, no aerosol, two warnings.\<close>

theorem GuimeraAtmosphere_recovers_witness:
  "GuimeraAtmosphere exact 12 1 ''smog'' =
     (\<lparr>month = 0, phase_molecular = ChandrasekharPhase,
       phase_aerosol = HenyeyGreenstein 0.8 0.64, aerosol = None\<rparr>,
      [InvalidMonth 12, UnknownAerosolType ''smog''])"
proof -
  have "aerosol (fst (GuimeraAtmosphere exact 12 1 ''smog'')) = None \<and>
        month (fst (GuimeraAtmosphere exact 12 1 ''smog'')) = 0"
    using GuimeraAtmosphere_recovers [of "''smog''" exact 12 1]
    by (simp add: aerosol_type_names_def)
  then show ?thesis
    by (simp add: GuimeraAtmosphere_def HenyeyGreenstein_new_def Let_def)
qed

subsection \<open>The phase mixture\<close>

text \<open>
  C5. Without an aerosol \<open>phase_eval\<close> returns the value of the molecular phase
  function. With an aerosol, at a point where molecular plus aerosol scattering is
  strictly positive, it returns the value of the molecular phase function when the
  sample is below \<open>molecular_scattering / (molecular_scattering + aerosol_scattering)\<close>
  (the quotient as the source computes it) and the value of the aerosol phase function
  otherwise.
\<close>

theorem phase_eval_selects:
  "(aerosol g = None \<longrightarrow>
      phase_eval fm ext g p sample wo wi wl = PhaseFunction_p fm ext (phase_molecular g) wo wi wl) \<and>
   (\<forall>a. aerosol g = Some a \<and>
        0 < get_molecular_scattering fm (height_at_point p) wl
              + Aerosol_get_scattering fm ext a (height_at_point p) wl \<longrightarrow>
      phase_eval fm ext g p sample wo wi wl =
        (if sample < fdiv fm (get_molecular_scattering fm (height_at_point p) wl)
                       (fadd fm (get_molecular_scattering fm (height_at_point p) wl)
                                (Aerosol_get_scattering fm ext a (height_at_point p) wl))
         then PhaseFunction_p fm ext (phase_molecular g) wo wi wl
         else PhaseFunction_p fm ext (phase_aerosol g) wo wi wl))"
  by (simp add: phase_eval_def Let_def)

lemmas lut_eval =
  lut_lerp_def lower_bound_def float_table_def pair_less_def FLT_MIN_def e10_def Let_def

lemma height_at_observer: "height_at_point (Vec3 0 0 0) = 0"
proof -
  have "sqrt (EARTH_RADIUS * EARTH_RADIUS) = EARTH_RADIUS"
    by (simp add: EARTH_RADIUS_def)
  then show ?thesis
    by (simp add: height_at_point_def distance_def vsub_def dot_def EARTH_CENTER_def)
qed

lemma exact_rayleigh_550:
  "lut_lerp exact (float_table exact rayleigh_volume_scattering_lut) 550 = 0.01149"
  by (simp add: lut_eval rayleigh_volume_scattering_lut_def)

lemma exact_temperature_0km:
  "lut_lerp exact (float_table exact standard_atmosphere_temperature_lut) 0 = 288.15"
  by (simp add: lut_eval standard_atmosphere_temperature_lut_def)

lemma exact_pressure_0km:
  "lut_lerp exact (float_table exact standard_atmosphere_pressure_lut) 0 = 101325"
  by (simp add: lut_eval standard_atmosphere_pressure_lut_def)

lemma exact_molecular_scattering_0km_550: "get_molecular_scattering exact 0 550 = 0.00001149"
  by (simp add: get_molecular_scattering_def Let_def exact_rayleigh_550 exact_temperature_0km
      exact_pressure_0km Ts_def Ps_def e10_def)

lemma exact_dusty_sky_aerosol:
  "aerosol (dusty_sky exact) =
     Some \<lparr>kind = DesertDust, turbidity = 1, base_density = 1866200000000000000,
           background_divided_by_base_density = 1 / 933100000000, height_scale = 2\<rparr>"
  by (simp add: dusty_sky_def GuimeraAtmosphere_def DesertDustAerosol_def Aerosol_def Let_def
      e10_def)

lemma exact_dust_scattering_0km:
  "Aerosol_get_scattering exact sample_externals
     \<lparr>kind = DesertDust, turbidity = 1, base_density = 1866200000000000000,
       background_divided_by_base_density = 1 / 933100000000, height_scale = 2\<rparr> 0 wl
   = pow2 (- 64) * 1866200000002000000 / 1000"
  by (simp add: Aerosol_get_scattering_def Aerosol_get_density_def sample_externals_def Let_def
      e10_def algebra_simps)

text \<open>
  At the observer on the ground, at 550 nm under the desert-dust aerosol, the molecular
  share of the scattering is about 0.1: the sample 0.05 selects the molecular phase
  function, the sample 0.5 the aerosol one.
\<close>

theorem phase_eval_selects_witness:
  "phase_eval exact sample_externals (dusty_sky exact) (Vec3 0 0 0) 0.05 (Vec3 0 0 1) (Vec3 1 0 0) 550 = 1 \<and>
   phase_eval exact sample_externals (dusty_sky exact) (Vec3 0 0 0) 0.5 (Vec3 0 0 1) (Vec3 1 0 0) 550 = 2"
proof -
  let ?a = "\<lparr>kind = DesertDust, turbidity = 1, base_density = 1866200000000000000,
       background_divided_by_base_density = 1 / 933100000000, height_scale = 2\<rparr>"
  have pm: "phase_molecular (dusty_sky exact) = ChandrasekharPhase"
    "phase_aerosol (dusty_sky exact) = HenyeyGreenstein 0.8 0.64"
    by (simp_all add: dusty_sky_def GuimeraAtmosphere_def HenyeyGreenstein_new_def Let_def)
  have pos: "0 < get_molecular_scattering exact (height_at_point (Vec3 0 0 0)) 550
        + Aerosol_get_scattering exact sample_externals ?a (height_at_point (Vec3 0 0 0)) 550"
    unfolding height_at_observer exact_molecular_scattering_0km_550 exact_dust_scattering_0km
    by (simp add: pow2_def)
  have sel: "phase_eval exact sample_externals (dusty_sky exact) (Vec3 0 0 0) s (Vec3 0 0 1) (Vec3 1 0 0) 550 =
        (if s < fdiv exact (get_molecular_scattering exact (height_at_point (Vec3 0 0 0)) 550)
                   (fadd exact (get_molecular_scattering exact (height_at_point (Vec3 0 0 0)) 550)
                      (Aerosol_get_scattering exact sample_externals ?a (height_at_point (Vec3 0 0 0)) 550))
         then PhaseFunction_p exact sample_externals (phase_molecular (dusty_sky exact)) (Vec3 0 0 1) (Vec3 1 0 0) 550
         else PhaseFunction_p exact sample_externals (phase_aerosol (dusty_sky exact)) (Vec3 0 0 1) (Vec3 1 0 0) 550)"
    for s
    using phase_eval_selects [of "dusty_sky exact" exact sample_externals "Vec3 0 0 0" s
        "Vec3 0 0 1" "Vec3 1 0 0" 550] exact_dusty_sky_aerosol pos
    by blast
  show ?thesis
    unfolding sel pm height_at_observer exact_molecular_scattering_0km_550
      exact_dust_scattering_0km
    by (simp add: PhaseFunction_p_def sample_externals_def pow2_def)
qed

subsection \<open>Rounding to binary32 and binary64\<close>

lemma pow2_powr: "pow2 e = 2 powr real_of_int e"
proof (cases "0 \<le> e")
  case True
  then show ?thesis by (simp add: pow2_def powr_realpow [symmetric])
next
  case False
  then have "2 powr real_of_int e = 1 / 2 powr real_of_int (- e)"
    by (simp add: powr_minus_divide)
  also have "\<dots> = 1 / 2 ^ nat (- e)" using False by (simp add: powr_realpow [symmetric])
  finally show ?thesis using False by (simp add: pow2_def)
qed

lemma pow2_pos [simp]: "0 < pow2 e"
  by (simp add: pow2_powr)

lemma pow2_add: "pow2 (a + b) = pow2 a * pow2 b"
  by (simp add: pow2_powr powr_add)

lemma rne_eval:
  assumes "\<bar>y - real_of_int m\<bar> < 1 / 2 \<or> (\<bar>y - real_of_int m\<bar> = 1 / 2 \<and> even m)"
  shows "rne y = m"
proof -
  define f where "f = \<lfloor>y\<rfloor>"
  have fl: "real_of_int f \<le> y" "y < real_of_int f + 1" by (simp_all add: f_def)
  from assms show ?thesis
  proof
    assume a: "\<bar>y - real_of_int m\<bar> < 1 / 2"
    then have "real_of_int m - 3 / 2 < real_of_int f" "real_of_int f < real_of_int m + 1 / 2"
      using fl by linarith+
    then have "m - 1 \<le> f" "f \<le> m" by linarith+
    then have "f = m \<or> f = m - 1" by linarith
    then show ?thesis
    proof
      assume "f = m"
      then show ?thesis using a fl unfolding rne_def Let_def f_def [symmetric] by auto
    next
      assume "f = m - 1"
      then show ?thesis using a fl unfolding rne_def Let_def f_def [symmetric] by auto
    qed
  next
    assume a: "\<bar>y - real_of_int m\<bar> = 1 / 2 \<and> even m"
    then have "y = real_of_int m + 1 / 2 \<or> y = real_of_int m - 1 / 2" by linarith
    then show ?thesis
    proof
      assume y: "y = real_of_int m + 1 / 2"
      then have "f = m" unfolding f_def by (simp add: floor_unique)
      then show ?thesis using a y unfolding rne_def Let_def f_def [symmetric] by simp
    next
      assume y: "y = real_of_int m - 1 / 2"
      then have "f = m - 1" unfolding f_def by (intro floor_unique) simp_all
      then show ?thesis using a y unfolding rne_def Let_def f_def [symmetric] by simp
    qed
  qed
qed

text \<open>
  Evaluating a rounding: \<open>k\<close> is the binary exponent of \<open>x\<close>, \<open>e\<close> the exponent of the
  last place and \<open>m\<close> the significand nearest to \<open>x / 2\<^sup>e\<close>.
\<close>

lemma round_to_eval:
  assumes "pow2 k \<le> \<bar>x\<bar>" "\<bar>x\<bar> < pow2 (k + 1)"
    and "e = max (k - (int p - 1)) emin"
    and "\<bar>x / pow2 e - real_of_int m\<bar> < 1 / 2 \<or>
         (\<bar>x / pow2 e - real_of_int m\<bar> = 1 / 2 \<and> even m)"
  shows "round_to p emin x = real_of_int m * pow2 e"
proof -
  have pos: "0 < \<bar>x\<bar>" using assms(1) pow2_pos [of k] by linarith
  have "\<lfloor>log 2 \<bar>x\<bar>\<rfloor> = k"
    using assms(1,2) pos by (subst floor_log_eq_powr_iff) (simp_all add: pow2_powr)
  moreover have "x \<noteq> 0" using pos by simp
  ultimately show ?thesis
    using rne_eval [OF assms(4)] assms(3) by (simp add: round_to_def Let_def)
qed

lemma round_to_0 [simp]: "round_to p emin 0 = 0"
  by (simp add: round_to_def)

text \<open>A number of the format is left as it is.\<close>

lemma round_to_fixed:
  assumes x: "x = real_of_int m * pow2 e0" and m: "\<bar>m\<bar> < 2 ^ p" and e0: "emin \<le> e0"
  shows "round_to p emin x = x"
proof (cases "m = 0")
  case True
  then show ?thesis using x by simp
next
  case False
  define k where "k = \<lfloor>log 2 \<bar>x\<bar>\<rfloor>"
  define e where "e = max (k - (int p - 1)) emin"
  have ax: "\<bar>x\<bar> = real_of_int \<bar>m\<bar> * pow2 e0" by (simp add: x abs_mult abs_of_pos)
  have m1: "1 \<le> real_of_int \<bar>m\<bar>" using False by linarith
  have xpos: "0 < \<bar>x\<bar>" using ax m1 pow2_pos [of e0] by (simp add: False x)
  have "real_of_int \<bar>m\<bar> < 2 ^ p" using m by (metis of_int_less_iff of_int_numeral of_int_power)
  then have "\<bar>x\<bar> < 2 ^ p * pow2 e0" using ax pow2_pos [of e0] by simp
  also have "2 ^ p * pow2 e0 = pow2 (int p + e0)" by (simp add: pow2_add) (simp add: pow2_def)
  finally have up: "\<bar>x\<bar> < 2 powr real_of_int (int p + e0)" by (simp add: pow2_powr)
  have "2 powr real_of_int k \<le> \<bar>x\<bar>"
    using xpos floor_log_eq_powr_iff [of "\<bar>x\<bar>" 2 k] by (simp add: k_def)
  then have "2 powr real_of_int k < 2 powr real_of_int (int p + e0)" using up by linarith
  then have "k < int p + e0" by simp
  then have ele: "e \<le> e0" using e0 by (simp add: e_def)
  define M where "M = m * 2 ^ nat (e0 - e)"
  have "pow2 e0 = pow2 (e0 - e) * pow2 e" by (simp flip: pow2_add)
  moreover have "pow2 (e0 - e) = 2 ^ nat (e0 - e)" using ele by (simp add: pow2_def)
  ultimately have xe: "x = real_of_int M * pow2 e" by (simp add: x M_def)
  have ne: "pow2 e \<noteq> 0" using pow2_pos [of e] by linarith
  have "x / pow2 e = real_of_int M" by (simp add: xe ne)
  then have "rne (x / pow2 e) = M" by (simp add: rne_eval)
  moreover have "x \<noteq> 0" using xpos by simp
  ultimately show ?thesis
    unfolding round_to_def Let_def k_def [symmetric] e_def [symmetric] using xe by simp
qed

lemma round_to_24_numeral:
  "(numeral w :: int) < 16777216 \<Longrightarrow> round_to 24 (- 149) (numeral w) = numeral w"
  using round_to_fixed [where x = "numeral w" and m = "numeral w" and ?e0.0 = 0 and p = 24
      and emin = "- 149"]
  by (simp add: pow2_def)

lemma round_to_24_1: "round_to 24 (- 149) 1 = 1"
  using round_to_fixed [where x = 1 and m = 1 and ?e0.0 = 0 and p = 24 and emin = "- 149"]
  by (simp add: pow2_def)

lemma ieee_simps: "r32 ieee = round_to 24 (- 149)" "r64 ieee = round_to 53 (- 1074)"
  by (simp_all add: ieee_def)

lemmas ieee_ops =
  ieee_simps fadd_def fsub_def fmul_def fdiv_def expf_def round_to_24_numeral round_to_24_1

text \<open>The roundings that occur in the evaluations below, each with its exponent and significand.\<close>

lemma rnd_1: "round_to 24 (- 149) (1437 / 10000) = 1205443 / 8388608"
  using round_to_eval [where x = "1437 / 10000" and k = "- 3" and p = 24 and emin = "- 149"
      and e = "- 26" and m = "9643544"]
  by (simp add: pow2_def)

lemma rnd_2: "round_to 24 (- 149) (333 / 2000) = 5586813 / 33554432"
  using round_to_eval [where x = "333 / 2000" and k = "- 3" and p = 24 and emin = "- 149"
      and e = "- 26" and m = "11173626"]
  by (simp add: pow2_def)

lemma rnd_3: "round_to 24 (- 149) (- (765041 / 33554432)) = - (765041 / 33554432)"
  using round_to_eval [where x = "- (765041 / 33554432)" and k = "- 6" and p = 24 and emin = "- 149"
      and e = "- 29" and m = "- 12240656"]
  by (simp add: pow2_def)

lemma rnd_4: "round_to 24 (- 149) (- (3825205 / 16777216)) = - (3825205 / 16777216)"
  using round_to_eval [where x = "- (3825205 / 16777216)" and k = "- 3" and p = 24 and emin = "- 149"
      and e = "- 26" and m = "- 15300820"]
  by (simp add: pow2_def)

lemma rnd_5: "round_to 24 (- 149) (1205443 / 8388608) = 1205443 / 8388608"
  using round_to_eval [where x = "1205443 / 8388608" and k = "- 3" and p = 24 and emin = "- 149"
      and e = "- 26" and m = "9643544"]
  by (simp add: pow2_def)

lemma rnd_6: "round_to 24 (- 149) (611 / 1000000000000000000000) = 11818459 / 19342813113834066795298816"
  using round_to_eval [where x = "611 / 1000000000000000000000" and k = "- 61" and p = 24 and emin = "- 149"
      and e = "- 84" and m = "11818459"]
  by (simp add: pow2_def)

lemma rnd_7: "round_to 24 (- 149) (37 / 125000000000000000000) = 11450945 / 38685626227668133590597632"
  using round_to_eval [where x = "37 / 125000000000000000000" and k = "- 62" and p = 24 and emin = "- 149"
      and e = "- 85" and m = "11450945"]
  by (simp add: pow2_def)

lemma rnd_8: "round_to 24 (- 149) (- (12185973 / 38685626227668133590597632)) = - (12185973 / 38685626227668133590597632)"
  using round_to_eval [where x = "- (12185973 / 38685626227668133590597632)" and k = "- 62" and p = 24 and emin = "- 149"
      and e = "- 85" and m = "- 12185973"]
  by (simp add: pow2_def)

lemma rnd_9: "round_to 24 (- 149) (- (12185973 / 9671406556917033397649408)) = - (12185973 / 9671406556917033397649408)"
  using round_to_eval [where x = "- (12185973 / 9671406556917033397649408)" and k = "- 60" and p = 24 and emin = "- 149"
      and e = "- 83" and m = "- 12185973"]
  by (simp add: pow2_def)

lemma rnd_10: "round_to 24 (- 149) (- (4061991 / 19342813113834066795298816)) = - (4061991 / 19342813113834066795298816)"
  using round_to_eval [where x = "- (4061991 / 19342813113834066795298816)" and k = "- 63" and p = 24 and emin = "- 149"
      and e = "- 86" and m = "- 16247964"]
  by (simp add: pow2_def)

lemma rnd_11: "round_to 24 (- 149) (1939117 / 4835703278458516698824704) = 1939117 / 4835703278458516698824704"
  using round_to_eval [where x = "1939117 / 4835703278458516698824704" and k = "- 62" and p = 24 and emin = "- 149"
      and e = "- 85" and m = "15512936"]
  by (simp add: pow2_def)

lemma rnd_12: "round_to 24 (- 149) (5763 / 20) = 9442099 / 32768"
  using round_to_eval [where x = "5763 / 20" and k = "8" and p = 24 and emin = "- 149"
      and e = "- 15" and m = "9442099"]
  by (simp add: pow2_def)

lemma rnd_13: "round_to 24 (- 149) (4333 / 20) = 7099187 / 32768"
  using round_to_eval [where x = "4333 / 20" and k = "7" and p = 24 and emin = "- 149"
      and e = "- 16" and m = "14198374"]
  by (simp add: pow2_def)

lemma rnd_14: "round_to 24 (- 149) (7099187 / 32768) = 7099187 / 32768"
  using round_to_eval [where x = "7099187 / 32768" and k = "7" and p = 24 and emin = "- 149"
      and e = "- 16" and m = "14198374"]
  by (simp add: pow2_def)

lemma rnd_15: "round_to 24 (- 149) (547489 / 100) = 11212575 / 2048"
  using round_to_eval [where x = "547489 / 100" and k = "12" and p = 24 and emin = "- 149"
      and e = "- 11" and m = "11212575"]
  by (simp add: pow2_def)

lemma rnd_16: "round_to 24 (- 149) (641001 / 100) = 3281925 / 512"
  using round_to_eval [where x = "641001 / 100" and k = "12" and p = 24 and emin = "- 149"
      and e = "- 11" and m = "13127700"]
  by (simp add: pow2_def)

lemma rnd_17: "round_to 24 (- 149) (- (1915125 / 2048)) = - (1915125 / 2048)"
  using round_to_eval [where x = "- (1915125 / 2048)" and k = "9" and p = 24 and emin = "- 149"
      and e = "- 14" and m = "- 15321000"]
  by (simp add: pow2_def)

lemma rnd_18: "round_to 24 (- 149) (11212575 / 2048) = 11212575 / 2048"
  using round_to_eval [where x = "11212575 / 2048" and k = "12" and p = 24 and emin = "- 149"
      and e = "- 11" and m = "11212575"]
  by (simp add: pow2_def)

lemma rnd_19: "round_to 24 (- 149) (1 / 1000) = 8589935 / 8589934592"
  using round_to_eval [where x = "1 / 1000" and k = "- 10" and p = 24 and emin = "- 149"
      and e = "- 33" and m = "8589935"]
  by (simp add: pow2_def)

lemma rnd_20: "round_to 24 (- 149) (5368709375 / 268435456) = 20"
  using round_to_eval [where x = "5368709375 / 268435456" and k = "4" and p = 24 and emin = "- 149"
      and e = "- 19" and m = "10485760"]
  by (simp add: pow2_def)

lemma rnd_21: "round_to 24 (- 149) (10354677016205 / 72057594037927936) = 4937495 / 34359738368"
  using round_to_eval [where x = "10354677016205 / 72057594037927936" and k = "- 13" and p = 24 and emin = "- 149"
      and e = "- 36" and m = "9874990"]
  by (simp add: pow2_def)

lemma rnd_22: "round_to 24 (- 149) (1 / 10000) = 13743895 / 137438953472"
  using round_to_eval [where x = "1 / 10000" and k = "- 14" and p = 24 and emin = "- 149"
      and e = "- 37" and m = "13743895"]
  by (simp add: pow2_def)

lemma rnd_23: "round_to 24 (- 149) (26651020440715 / 664613997892457936451903530140172288) = 12708197 / 316912650057057350374175801344"
  using round_to_eval [where x = "26651020440715 / 664613997892457936451903530140172288" and k = "- 75" and p = 24 and emin = "- 149"
      and e = "- 98" and m = "12708197"]
  by (simp add: pow2_def)

lemma rnd_24: "round_to 24 (- 149) (268670000000000000000) = 268669993924832526336"
  using round_to_eval [where x = "268670000000000000000" and k = "67" and p = 24 and emin = "- 149"
      and e = "44" and m = "15272121"]
  by (simp add: pow2_def)

lemma rnd_25: "round_to 24 (- 149) (93228487891916886638592) = 93228484461440607977472"
  using round_to_eval [where x = "93228487891916886638592" and k = "76" and p = 24 and emin = "- 149"
      and e = "53" and m = "10350441"]
  by (simp add: pow2_def)

lemma rnd_26: "round_to 24 (- 149) (3 / 70) = 11504377 / 268435456"
  using round_to_eval [where x = "3 / 70" and k = "- 5" and p = 24 and emin = "- 149"
      and e = "- 28" and m = "11504377"]
  by (simp add: pow2_def)

lemma rnd_27: "round_to 24 (- 149) (3995506586071307649024) = 3995506613635300458496"
  using round_to_eval [where x = "3995506586071307649024" and k = "71" and p = 24 and emin = "- 149"
      and e = "48" and m = "14194891"]
  by (simp add: pow2_def)

lemma rnd_28: "round_to 24 (- 149) (499438326704412557312 / 1125) = 443945171382435840"
  using round_to_eval [where x = "499438326704412557312 / 1125" and k = "58" and p = 24 and emin = "- 149"
      and e = "35" and m = "12920505"]
  by (simp add: pow2_def)

lemma rnd_29: "round_to 24 (- 149) (164196322879485 / 9223372036854775808) = 9786863 / 549755813888"
  using round_to_eval [where x = "164196322879485 / 9223372036854775808" and k = "- 16" and p = 24 and emin = "- 149"
      and e = "- 39" and m = "9786863"]
  by (simp add: pow2_def)

lemma rnd_30: "round_to 24 (- 149) (88786783 / 549755813888) = 2774587 / 17179869184"
  using round_to_eval [where x = "88786783 / 549755813888" and k = "- 13" and p = 24 and emin = "- 149"
      and e = "- 36" and m = "11098348"]
  by (simp add: pow2_def)

lemma rnd_31: "round_to 24 (- 149) (149501 / 2766848) = 14504363 / 268435456"
  using round_to_eval [where x = "149501 / 2766848" and k = "- 5" and p = 24 and emin = "- 149"
      and e = "- 28" and m = "14504363"]
  by (simp add: pow2_def)

lemma rnd_32: "round_to 24 (- 149) (17484182847809 / 2251799813685248) = 2084277 / 268435456"
  using round_to_eval [where x = "17484182847809 / 2251799813685248" and k = "- 8" and p = 24 and emin = "- 149"
      and e = "- 31" and m = "16674216"]
  by (simp add: pow2_def)

lemma rnd_33: "round_to 24 (- 149) (9442099 / 7099187) = 5578531 / 4194304"
  using round_to_eval [where x = "9442099 / 7099187" and k = "0" and p = 24 and emin = "- 149"
      and e = "- 23" and m = "11157062"]
  by (simp add: pow2_def)

lemma rnd_34: "round_to 24 (- 149) (11627203857087 / 1125899906842624) = 5544283 / 536870912"
  using round_to_eval [where x = "11627203857087 / 1125899906842624" and k = "- 7" and p = 24 and emin = "- 149"
      and e = "- 30" and m = "11088566"]
  by (simp add: pow2_def)

lemma rnd_35: "round_to 24 (- 149) (47625030591605 / 4611686018427387904) = 2838673 / 274877906944"
  using round_to_eval [where x = "47625030591605 / 4611686018427387904" and k = "- 17" and p = 24 and emin = "- 149"
      and e = "- 40" and m = "11354692"]
  by (simp add: pow2_def)

lemma rnd_36: "round_to 24 (- 149) (37 / 70) = 8867957 / 16777216"
  using round_to_eval [where x = "37 / 70" and k = "- 1" and p = 24 and emin = "- 149"
      and e = "- 24" and m = "8867957"]
  by (simp add: pow2_def)

lemma rnd_37: "round_to 24 (- 149) (49277913056565729951744) = 49277914244727093329920"
  using round_to_eval [where x = "49277913056565729951744" and k = "75" and p = 24 and emin = "- 149"
      and e = "52" and m = "10941895"]
  by (simp add: pow2_def)

lemma rnd_38: "round_to 24 (- 149) (1231947856118177333248 / 225) = 5475323814743113728"
  using round_to_eval [where x = "1231947856118177333248 / 225" and k = "62" and p = 24 and emin = "- 149"
      and e = "39" and m = "9959556"]
  by (simp add: pow2_def)

lemma rnd_39: "round_to 24 (- 149) (31641999920133 / 144115188075855872) = 15088081 / 68719476736"
  using round_to_eval [where x = "31641999920133 / 144115188075855872" and k = "- 13" and p = 24 and emin = "- 149"
      and e = "- 36" and m = "15088081"]
  by (simp add: pow2_def)

lemma rnd_40: "round_to 24 (- 149) (63190997 / 274877906944) = 15797749 / 68719476736"
  using round_to_eval [where x = "63190997 / 274877906944" and k = "- 13" and p = 24 and emin = "- 149"
      and e = "- 36" and m = "15797749"]
  by (simp add: pow2_def)

lemmas roundings =
  rnd_1 rnd_2 rnd_3 rnd_4 rnd_5 rnd_6 rnd_7 rnd_8 rnd_9 rnd_10
  rnd_11 rnd_12 rnd_13 rnd_14 rnd_15 rnd_16 rnd_17 rnd_18 rnd_19 rnd_20
  rnd_21 rnd_22 rnd_23 rnd_24 rnd_25 rnd_26 rnd_27 rnd_28 rnd_29 rnd_30
  rnd_31 rnd_32 rnd_33 rnd_34 rnd_35 rnd_36 rnd_37 rnd_38 rnd_39 rnd_40

subsection \<open>Extinction against the majorant\<close>

lemma clear_sky_fields: "month (clear_sky fm) = 0" "aerosol (clear_sky fm) = None"
  by (simp_all add: clear_sky_def GuimeraAtmosphere_def Let_def)

text \<open>In exact arithmetic, at 300 nm, on the ground and at 20 km.\<close>

lemma exact_rayleigh_300:
  "lut_lerp exact (float_table exact rayleigh_volume_scattering_lut) 300 = 0.1437"
  by (simp add: lut_eval rayleigh_volume_scattering_lut_def)

lemma exact_ozone_300:
  "lut_lerp exact (float_table exact ozone_cross_section_lut) 300 = e10 40.1 (- 20)"
  by (simp add: lut_eval ozone_cross_section_lut_def)

lemma exact_temperature_20km:
  "lut_lerp exact (float_table exact standard_atmosphere_temperature_lut) 20 = 216.65"
  by (simp add: lut_eval standard_atmosphere_temperature_lut_def)

lemma exact_pressure_20km:
  "lut_lerp exact (float_table exact standard_atmosphere_pressure_lut) 20 = 5474.89"
  by (simp add: lut_eval standard_atmosphere_pressure_lut_def)

lemma exact_molecular_scattering_0km_300: "get_molecular_scattering exact 0 300 = 0.0001437"
  by (simp add: get_molecular_scattering_def Let_def exact_rayleigh_300 exact_temperature_0km
      exact_pressure_0km Ts_def Ps_def e10_def)

lemma exact_molecular_scattering_20km_300:
  "get_molecular_scattering exact 20000 300 =
     0.1437 * (5474.89 / 101325) * (288.15 / 216.65) / 1000"
  by (simp add: get_molecular_scattering_def Let_def exact_rayleigh_300 exact_temperature_20km
      exact_pressure_20km Ts_def Ps_def e10_def)

lemma exact_molecular_absorption_0km_300:
  "get_molecular_absorption exact (clear_sky exact) 0 300 =
     e10 40.1 (- 24) * (9 / 210 * (347 * e10 2.6867 20) / 9000)"
  by (simp add: get_molecular_absorption_def Let_def exact_ozone_300 clear_sky_fields
      get_ozone_height_distribution_def ozone_mean_monthly_dobson_def e10_def)

lemma exact_molecular_absorption_20km_300:
  "get_molecular_absorption exact (clear_sky exact) 20000 300 =
     e10 40.1 (- 24) * (111 / 210 * (347 * e10 2.6867 20) / 9000)"
  by (simp add: get_molecular_absorption_def Let_def exact_ozone_300 clear_sky_fields
      get_ozone_height_distribution_def ozone_mean_monthly_dobson_def e10_def)

text \<open>In binary32 arithmetic, at the same points.\<close>

lemma rayleigh_300:
  "lut_lerp ieee (float_table ieee rayleigh_volume_scattering_lut) 300 = 1205443 / 8388608"
  by (simp add: lut_eval rayleigh_volume_scattering_lut_def ieee_ops roundings)

lemma ozone_300:
  "lut_lerp ieee (float_table ieee ozone_cross_section_lut) 300 = 1939117 / 4835703278458516698824704"
  by (simp add: lut_eval ozone_cross_section_lut_def ieee_ops roundings)

lemma temperature_0km:
  "lut_lerp ieee (float_table ieee standard_atmosphere_temperature_lut) 0 = 9442099 / 32768"
  by (simp add: lut_eval standard_atmosphere_temperature_lut_def ieee_ops roundings)

lemma pressure_0km:
  "lut_lerp ieee (float_table ieee standard_atmosphere_pressure_lut) 0 = 101325"
  by (simp add: lut_eval standard_atmosphere_pressure_lut_def ieee_ops roundings)

lemma temperature_20km:
  "lut_lerp ieee (float_table ieee standard_atmosphere_temperature_lut) 20 = 7099187 / 32768"
  by (simp add: lut_eval standard_atmosphere_temperature_lut_def ieee_ops roundings)

lemma pressure_20km:
  "lut_lerp ieee (float_table ieee standard_atmosphere_pressure_lut) 20 = 11212575 / 2048"
  by (simp add: lut_eval standard_atmosphere_pressure_lut_def ieee_ops roundings)

lemma molecular_scattering_0km_300:
  "get_molecular_scattering ieee 0 300 = 4937495 / 34359738368"
  by (simp add: get_molecular_scattering_def Let_def rayleigh_300 temperature_0km pressure_0km
      Ts_def Ps_def e10_def ieee_ops roundings)

lemma molecular_absorption_0km_300:
  "get_molecular_absorption ieee (clear_sky ieee) 0 300 = 9786863 / 549755813888"
  by (simp add: get_molecular_absorption_def Let_def ozone_300 clear_sky_fields
      get_ozone_height_distribution_def ozone_mean_monthly_dobson_def e10_def ieee_ops roundings)

lemma extinction_0km_300:
  "get_extinction ieee ext (clear_sky ieee) 0 300 = 2774587 / 17179869184"
  by (simp add: get_extinction_def Let_def clear_sky_fields molecular_scattering_0km_300
      molecular_absorption_0km_300 ieee_ops roundings)

lemma molecular_scattering_20km_300:
  "get_molecular_scattering ieee 20000 300 = 2838673 / 274877906944"
  by (simp add: get_molecular_scattering_def Let_def rayleigh_300 temperature_20km pressure_20km
      Ts_def Ps_def e10_def ieee_ops roundings)

lemma molecular_absorption_20km_300:
  "get_molecular_absorption ieee (clear_sky ieee) 20000 300 = 15088081 / 68719476736"
  by (simp add: get_molecular_absorption_def Let_def ozone_300 clear_sky_fields
      get_ozone_height_distribution_def ozone_mean_monthly_dobson_def e10_def ieee_ops roundings)

lemma extinction_20km_300:
  "get_extinction ieee ext (clear_sky ieee) 20000 300 = 15797749 / 68719476736"
  by (simp add: get_extinction_def Let_def clear_sky_fields molecular_scattering_20km_300
      molecular_absorption_20km_300 ieee_ops roundings)

text \<open>
  C2. The claim: for every wavelength and every height in \<open>[0, 100 km]\<close> the value of
  \<open>get_max_extinction\<close> is at least the extinction. \<open>get_max_extinction\<close> returns the
  extinction on the ground, on the assumption, stated in its comment, that the maximum
  is there. The ozone profile of \<open>get_ozone_height_distribution\<close> puts 9/210 of the
  column below 9 km and 111/210 between 18 and 27 km, so where ozone absorbs strongly
  the extinction at 20 km exceeds the one on the ground. In January without aerosol, at
  300 nm, the first call returns about \<open>1.615e-4\<close> while the extinction at 20 km is about
  \<open>2.299e-4\<close>, in binary32 arithmetic and in exact arithmetic alike.
\<close>

theorem majorant_below_extinction:
  "fst (get_max_extinction ieee ext (clear_sky ieee) initial_cache 300) = 2774587 / 17179869184 \<and>
   get_extinction ieee ext (clear_sky ieee) 20000 300 = 15797749 / 68719476736 \<and>
   fst (get_max_extinction ieee ext (clear_sky ieee) initial_cache 300)
     < get_extinction ieee ext (clear_sky ieee) 20000 300 \<and>
   fst (get_max_extinction exact ext (clear_sky exact) initial_cache 300)
     < get_extinction exact ext (clear_sky exact) 20000 300 \<and>
   0 \<le> (20000 :: real) \<and> 20000 \<le> ATMOSPHERE_THICKNESS"
proof -
  have "fst (get_max_extinction ieee ext (clear_sky ieee) initial_cache 300)
          = 2774587 / 17179869184"
    by (simp add: get_max_extinction_def Atmosphere_get_max_extinction_def initial_cache_def
        Let_def extinction_0km_300)
  moreover have "fst (get_max_extinction exact ext (clear_sky exact) initial_cache 300)
          < get_extinction exact ext (clear_sky exact) 20000 300"
    by (simp add: get_max_extinction_def Atmosphere_get_max_extinction_def initial_cache_def
        get_extinction_def clear_sky_fields exact_molecular_scattering_0km_300
        exact_molecular_scattering_20km_300 exact_molecular_absorption_0km_300
        exact_molecular_absorption_20km_300 e10_def Let_def)
  ultimately show ?thesis
    by (simp add: extinction_20km_300 ATMOSPHERE_THICKNESS_def)
qed

subsection \<open>Extinction as the sum of absorption and scattering\<close>

text \<open>
  What the code gives for every choice of the cross-section functions. Without an
  aerosol the extinction is the \<open>float\<close> sum of absorption and scattering, whatever
  the rounding: both are the rounded sum of the same two molecular terms. With an
  aerosol the two sides are equal in exact arithmetic. \<open>get_extinction\<close> adds the
  molecular terms first and multiplies the sum of the two cross-sections by the density,
  while \<open>get_absorption\<close> and \<open>get_scattering\<close> multiply each cross-section by the
  density and add each product to one molecular term; whether the rounded results
  coincide in binary32 depends on the values in the cross-section tables.
\<close>

lemma extinction_sum_molecular_only:
  "aerosol g = None \<Longrightarrow>
     get_extinction fm ext g h wl =
       fadd fm (get_absorption fm ext g h wl) (get_scattering fm ext g h wl)"
  by (simp add: get_extinction_def get_absorption_def get_scattering_def fadd_def add.commute)

lemma extinction_sum_exact_arithmetic:
  "get_extinction exact ext g h wl = get_absorption exact ext g h wl + get_scattering exact ext g h wl"
  by (cases "aerosol g")
    (simp_all add: get_extinction_def get_absorption_def get_scattering_def
      Aerosol_get_extinction_def Aerosol_get_absorption_def Aerosol_get_scattering_def
      algebra_simps)

subsection \<open>Bounds on a rounded result\<close>

text \<open>Rounding to the nearest number is symmetric and keeps the sign.\<close>

lemma rne_spec:
  "\<bar>y - real_of_int (rne y)\<bar> < 1 / 2 \<or> (\<bar>y - real_of_int (rne y)\<bar> = 1 / 2 \<and> even (rne y))"
proof -
  define f where "f = \<lfloor>y\<rfloor>"
  have fl: "real_of_int f \<le> y" "y < real_of_int f + 1" by (simp_all add: f_def)
  show ?thesis
    unfolding rne_def Let_def f_def [symmetric] using fl by auto
qed

lemma rne_minus: "rne (- y) = - rne y"
proof (rule rne_eval)
  show "\<bar>- y - real_of_int (- rne y)\<bar> < 1 / 2 \<or>
        \<bar>- y - real_of_int (- rne y)\<bar> = 1 / 2 \<and> even (- rne y)"
    using rne_spec [of y] by (auto simp: abs_if split: if_splits)
qed

lemma round_to_minus: "round_to p emin (- x) = - round_to p emin x"
  by (simp add: round_to_def Let_def rne_minus)

lemma rne_ge: "real_of_int n \<le> y \<Longrightarrow> n \<le> rne y"
proof -
  assume a: "real_of_int n \<le> y"
  then have "n \<le> \<lfloor>y\<rfloor>" by (simp add: le_floor_iff)
  then show ?thesis by (simp add: rne_def Let_def)
qed

lemma rne_le: "y \<le> real_of_int n \<Longrightarrow> rne y \<le> n"
  using rne_ge [of "- n" "- y"] by (simp add: rne_minus)

lemma round_to_nonneg: "0 \<le> x \<Longrightarrow> 0 \<le> round_to p emin x"
proof -
  assume a: "0 \<le> x"
  have "0 \<le> rne (x / pow2 e)" for e
    by (rule rne_ge) (simp add: a less_imp_le)
  then show ?thesis using pow2_pos by (simp add: round_to_def Let_def less_imp_le)
qed

lemma round_to_nonpos: "x \<le> 0 \<Longrightarrow> round_to p emin x \<le> 0"
  using round_to_nonneg [of "- x" p emin] by (simp add: round_to_minus)

text \<open>Rounding does not cross a power of two of the format.\<close>

lemma round_to_grid_le:
  assumes "x \<noteq> 0" and "e = max (\<lfloor>log 2 \<bar>x\<bar>\<rfloor> - (int p - 1)) emin"
    and "x \<le> real_of_int n * pow2 e"
  shows "round_to p emin x \<le> real_of_int n * pow2 e"
proof -
  have "x / pow2 e \<le> real_of_int n" using assms(3) pow2_pos [of e] by (simp add: field_simps)
  then have "rne (x / pow2 e) \<le> n" by (rule rne_le)
  then have "real_of_int (rne (x / pow2 e)) * pow2 e \<le> real_of_int n * pow2 e"
    using pow2_pos [of e] by simp
  then show ?thesis using assms(1,2) by (simp add: round_to_def Let_def)
qed


lemma pow2_split: "e \<le> k \<Longrightarrow> pow2 k = real_of_int (2 ^ nat (k - e)) * pow2 e"
proof -
  assume "e \<le> k"
  then have "pow2 (k - e) = 2 ^ nat (k - e)" by (simp add: pow2_def)
  moreover have "pow2 k = pow2 (k - e) * pow2 e" by (simp flip: pow2_add)
  ultimately show ?thesis by simp
qed


lemma round_to_le_pow2:
  assumes "x \<le> pow2 k" "emin \<le> k" "0 < p"
  shows "round_to p emin x \<le> pow2 k"
proof (cases "0 < x")
  case False
  then have "round_to p emin x \<le> 0" by (intro round_to_nonpos) simp
  then show ?thesis using pow2_pos [of k] by linarith
next
  case True
  define K where "K = \<lfloor>log 2 \<bar>x\<bar>\<rfloor>"
  define e where "e = max (K - (int p - 1)) emin"
  have "log 2 x \<le> real_of_int k" using True assms(1) by (simp add: pow2_powr log_le_iff)
  then have "K \<le> k" using True by (simp add: K_def floor_le_iff)
  then have ek: "e \<le> k" using assms(2,3) by (simp add: e_def)
  have "round_to p emin x \<le> real_of_int (2 ^ nat (k - e)) * pow2 e"
    by (rule round_to_grid_le) (use True assms(1) pow2_split [OF ek] in \<open>simp_all add: e_def K_def\<close>)
  then show ?thesis using pow2_split [OF ek] by simp
qed


lemma round_to_ge_minus_pow2:
  "- pow2 k \<le> x \<Longrightarrow> emin \<le> k \<Longrightarrow> 0 < p \<Longrightarrow> - pow2 k \<le> round_to p emin x"
  using round_to_le_pow2 [of "- x" k emin p] by (simp add: round_to_minus)


subsection \<open>The sampler and one step of the tracking loops\<close>

lemma next_1d_fst: "fst (next_1d smp) = fst (next_float (sampler_random smp))"
  by (simp add: next_1d_def split_beta)

lemma next_1d_unit: "0 \<le> fst (next_1d smp) \<and> fst (next_1d smp) < 1"
  using next_float_unit [of "sampler_random smp"] by (simp add: next_1d_fst)

text \<open>\<open>1.0f - next_1d()\<close> is exact, and lies in \<open>[2\<^sup>-\<^sup>2\<^sup>4, 1]\<close>.\<close>

lemma one_minus_draw:
  "fsub ieee 1 (fst (next_1d smp)) = 1 - fst (next_1d smp) \<and>
   1 / 2 ^ 24 \<le> 1 - fst (next_1d smp) \<and> 1 - fst (next_1d smp) \<le> 1"
proof -
  obtain k :: nat where k: "k < 2 ^ 24" "fst (next_1d smp) = real k / 2 ^ 24"
    using next_float_grid [of "sampler_random smp"] by (auto simp: next_1d_fst)
  have ki: "int k < 2 ^ 24" using k(1) by (metis of_nat_less_iff of_nat_numeral of_nat_power)
  have "int k \<le> 2 ^ 24 - 1" using ki by simp
  then have "real_of_int (int k) \<le> real_of_int (2 ^ 24 - 1)" by (simp only: of_int_le_iff)
  then have kr: "real k \<le> 2 ^ 24 - 1" by simp
  have "round_to 24 (- 149) (1 - real k / 2 ^ 24) = 1 - real k / 2 ^ 24"
  proof (cases "k = 0")
    case True
    then show ?thesis by (simp add: round_to_24_1)
  next
    case False
    show ?thesis
    proof (rule round_to_fixed [where m = "2 ^ 24 - int k" and ?e0.0 = "- 24"])
      show "1 - real k / 2 ^ 24 = real_of_int (2 ^ 24 - int k) * pow2 (- 24)"
        by (simp add: pow2_def field_simps)
      show "\<bar>2 ^ 24 - int k\<bar> < 2 ^ 24" using ki False by simp
    qed simp
  qed
  then have "fsub ieee 1 (fst (next_1d smp)) = 1 - fst (next_1d smp)"
    by (simp add: fsub_def ieee_simps k(2))
  moreover have "1 / 2 ^ 24 \<le> 1 - fst (next_1d smp)"
    unfolding k(2) using kr by (simp add: field_simps)
  moreover have "1 - fst (next_1d smp) \<le> 1" using next_1d_unit [of smp] by simp
  ultimately show ?thesis by simp
qed

lemma ln_grid_lower: "1 / 2 ^ 24 \<le> x \<Longrightarrow> - 32 \<le> ln (x::real)"
proof -
  assume a: "1 / 2 ^ 24 \<le> x"
  have "(0::real) < 1 / 2 ^ 24" by simp
  then have xpos: "0 < x" using a by linarith
  have "ln (2::real) \<le> 1" using ln_le_minus_one [of "2::real"] by simp
  have "ln (1 / 2 ^ 24 :: real) = - (24 * ln 2)"
    using ln_realpow [of "2::real" 24] by (simp add: ln_div)
  moreover have "ln (1 / 2 ^ 24 :: real) \<le> ln x" using a xpos by (subst ln_le_cancel_iff) simp_all
  ultimately show ?thesis using \<open>ln (2::real) \<le> 1\<close> by linarith
qed

text \<open>The rounded logarithm of \<open>1 - u\<close> lies in \<open>[-32, 0]\<close>.\<close>

lemma logf_draw:
  "- 32 \<le> logf ieee (fsub ieee 1 (fst (next_1d smp))) \<and>
   logf ieee (fsub ieee 1 (fst (next_1d smp))) \<le> 0"
proof -
  let ?w = "1 - fst (next_1d smp)"
  have w: "fsub ieee 1 (fst (next_1d smp)) = ?w" "1 / 2 ^ 24 \<le> ?w" "?w \<le> 1"
    using one_minus_draw [of smp] by simp_all
  have wpos: "0 < ?w" using next_1d_unit [of smp] by simp
  have "ln ?w \<le> 0" using wpos w(3) by simp
  then have up: "round_to 24 (- 149) (ln ?w) \<le> 0" by (rule round_to_nonpos)
  have "- pow2 5 \<le> ln ?w" using ln_grid_lower [OF w(2)] by (simp add: pow2_def)
  then have "- pow2 5 \<le> round_to 24 (- 149) (ln ?w)" by (rule round_to_ge_minus_pow2) simp_all
  then have "- 32 \<le> round_to 24 (- 149) (ln ?w)" by (simp add: pow2_def)
  with up show ?thesis by (simp add: logf_def ieee_simps w(1))
qed

lemma flight_nonneg:
  assumes "0 < majorant"
  shows "0 \<le> flight ieee majorant 0 smp" "0 \<le> flight exact majorant 0 smp"
proof -
  let ?L = "logf ieee (fsub ieee 1 (fst (next_1d smp)))"
  have "?L / majorant \<le> 0" using logf_draw [of smp] assms by (simp add: divide_le_0_iff)
  then have "round_to 24 (- 149) (?L / majorant) \<le> 0" by (rule round_to_nonpos)
  then have "0 \<le> 0 - round_to 24 (- 149) (?L / majorant)" by simp
  then have "0 \<le> round_to 24 (- 149) (0 - round_to 24 (- 149) (?L / majorant))"
    by (rule round_to_nonneg)
  then show "0 \<le> flight ieee majorant 0 smp"
    by (simp add: flight_def fsub_def fdiv_def ieee_simps)
  have "0 < 1 - fst (next_1d smp)" "1 - fst (next_1d smp) \<le> 1"
    using next_1d_unit [of smp] by simp_all
  then have "ln (1 - fst (next_1d smp)) \<le> 0" by simp
  then have "ln (1 - fst (next_1d smp)) / majorant \<le> 0" using assms by (simp add: divide_le_0_iff)
  then show "0 \<le> flight exact majorant 0 smp"
    by (simp add: flight_def logf_def)
qed

lemma loop_flight:
  "fsub fm t (fdiv fm (logf fm (fsub fm 1 (fst (next_1d smp)))) majorant) = flight fm majorant t smp"
  by (simp add: flight_def)

subsection \<open>Ratio tracking\<close>

text \<open>
  C7. Ratio tracking over a segment of length \<open>t_max = 0\<close> returns exactly 1 when the
  majorant is strictly positive, for every state of the sampler: the logarithm of
  \<open>1 - u\<close> is at most 0, so is its quotient by the majorant, and the first distance is
  at least \<open>0 = t_max\<close>; the loop is left before the product is multiplied. One draw
  is consumed. This holds in binary32 arithmetic, where each of the three operations is
  rounded, and in exact arithmetic.
\<close>

theorem transmittance_zero_length:
  assumes "0 < atm_get_max_extinction atm wl"
  shows "transmittance ieee atm smp r 0 wl = Some (1, snd (next_1d smp)) \<and>
         transmittance exact atm smp r 0 wl = Some (1, snd (next_1d smp))"
proof
  show "transmittance ieee atm smp r 0 wl = Some (1, snd (next_1d smp))"
    unfolding transmittance_def Let_def
    by (subst transmittance_loop.simps) (simp add: Let_def loop_flight flight_nonneg(1) [OF assms])
  show "transmittance exact atm smp r 0 wl = Some (1, snd (next_1d smp))"
    unfolding transmittance_def Let_def
    by (subst transmittance_loop.simps) (simp only: Let_def loop_flight flight_nonneg(2) [OF assms] if_True)
qed


text \<open>That sampler over a medium of majorant 1.\<close>

theorem transmittance_zero_length_witness:
  "transmittance ieee vacuum (Sampler 0 64) x_axis_ray 0 550 = Some (1, snd (next_1d (Sampler 0 64)))"
proof -
  have "0 < atm_get_max_extinction vacuum 550" by (simp add: vacuum_def)
  from transmittance_zero_length [OF this, of "Sampler 0 64" x_axis_ray]
  show ?thesis by simp
qed

subsection \<open>Delta tracking\<close>










end
